theory Spec2Isabelle
  imports Main "HOL-Library.AList" "HOL-Library.Sublist"
begin

section \<open>Go values\<close>

text \<open>
  The provider passes configuration and state around as Go \<^verbatim>\<open>interface{}\<close> values.
  A value of that type carries its dynamic type, and a type assertion \<^verbatim>\<open>x.(T)\<close>
  succeeds only when the dynamic type is exactly \<^verbatim>\<open>T\<close>. One constructor stands for
  each dynamic type the modelled functions store or inspect. A Go map is an association
  list whose order is the (unspecified) iteration order; a nil map and an empty map are
  both the empty list, and so are a nil slice and an empty slice.
\<close>

datatype iface =
    INil                                        \<comment> \<open>the nil interface value\<close>
  | IString string                              \<comment> \<open>\<^verbatim>\<open>string\<close>\<close>
  | IInt int                                    \<comment> \<open>\<^verbatim>\<open>int\<close>, \<^verbatim>\<open>int64\<close>\<close>
  | IStringMap "(string \<times> string) list"         \<comment> \<open>\<^verbatim>\<open>map[string]string\<close>\<close>
  | IMap "(string \<times> iface) list"                \<comment> \<open>\<^verbatim>\<open>map[string]interface{}\<close>\<close>
  | ISlice "iface list"                         \<comment> \<open>\<^verbatim>\<open>[]interface{}\<close>\<close>
  | IMapSlice "(string \<times> iface) list list"      \<comment> \<open>\<^verbatim>\<open>[]map[string]interface{}\<close>\<close>
  | IStringSlice "string list"                  \<comment> \<open>\<^verbatim>\<open>[]string\<close>\<close>
  | ISet "iface list"                           \<comment> \<open>\<^verbatim>\<open>*schema.Set\<close>, with the items it was built from\<close>

text \<open>A failed single-value type assertion panics; the panic is a result of its own.\<close>

datatype panic = InterfaceConversion

text \<open>
  Go \<^verbatim>\<open>error\<close> values: \<^verbatim>\<open>fmt.Errorf\<close> with its format and arguments, an API status
  error with its reason and message, the error of a library parser with its input, and
  the timeout of a wait.
\<close>

datatype error =
    Errorf string "iface list"
  | StatusError string string
  | ParseError string
  | TimeoutError

definition bindP :: "panic + 'a \<Rightarrow> ('a \<Rightarrow> panic + 'b) \<Rightarrow> panic + 'b" where
  "bindP r f = (case r of Inl p \<Rightarrow> Inl p | Inr x \<Rightarrow> f x)"

definition assert_string :: "iface \<Rightarrow> panic + string" where
  "assert_string v = (case v of IString x \<Rightarrow> Inr x | _ \<Rightarrow> Inl InterfaceConversion)"

definition assert_map :: "iface \<Rightarrow> panic + (string \<times> iface) list" where
  "assert_map v = (case v of IMap m \<Rightarrow> Inr m | _ \<Rightarrow> Inl InterfaceConversion)"

definition assert_slice :: "iface \<Rightarrow> panic + iface list" where
  "assert_slice v = (case v of ISlice l \<Rightarrow> Inr l | _ \<Rightarrow> Inl InterfaceConversion)"

definition assert_set :: "iface \<Rightarrow> panic + iface list" where
  "assert_set v = (case v of ISet l \<Rightarrow> Inr l | _ \<Rightarrow> Inl InterfaceConversion)"

text \<open>Indexing a map with a missing key gives the zero value, the nil interface.\<close>

definition index_map :: "(string \<times> iface) list \<Rightarrow> string \<Rightarrow> iface" where
  "index_map m k = (case map_of m k of None \<Rightarrow> INil | Some v \<Rightarrow> v)"

section \<open>Resource identifiers\<close>

record ObjectMeta =
  Name :: string
  GenerateName :: string
  Namespace :: string
  ResourceVersion :: string
  UID :: string
  Generation :: int
  Annotations :: "(string \<times> string) list"
  Labels :: "(string \<times> string) list"

text \<open>
  \<^verbatim>\<open>strings.Split(s, sep)\<close> of the Go standard library for a separator of one byte:
  the substrings between the separators, one more than there are separators.
\<close>

fun Split :: "char \<Rightarrow> string \<Rightarrow> string list" where
  "Split c [] = [[]]"
| "Split c (x # xs) =
     (if x = c then [] # Split c xs
      else (case Split c xs of [] \<Rightarrow> [[x]] | p # ps \<Rightarrow> (x # p) # ps))"

definition IdParts :: "string \<Rightarrow> string \<times> string \<times> error option" where
  "IdParts ident =
     (let parts = Split CHR ''/'' ident in
      if length parts \<noteq> 2 then
        ('''', '''',
         Some (Errorf ''Unexpected ID format (%q), expected %q.''
                 [IString ident, IString ''namespace/name'']))
      else (parts ! 0, parts ! 1, None))"

definition BuildId :: "ObjectMeta \<Rightarrow> string" where
  "BuildId meta = Namespace meta @ ''/'' @ Name meta"

section \<open>String slices\<close>

fun ExpandStringSlice :: "iface list \<Rightarrow> panic + string list" where
  "ExpandStringSlice [] = Inr []"
| "ExpandStringSlice (v # s) =
     bindP (if v = INil then Inr '''' else assert_string v)
       (\<lambda>x. bindP (ExpandStringSlice s) (\<lambda>result. Inr (x # result)))"

section \<open>Metadata filtering\<close>

text \<open>
  \<^verbatim>\<open>strings.HasSuffix\<close> and \<^verbatim>\<open>strings.Contains\<close> of the Go standard library,
  as its documentation defines them.
\<close>

definition HasSuffix :: "string \<Rightarrow> string \<Rightarrow> bool" where
  "HasSuffix s suf = suffix suf s"

definition Contains :: "string \<Rightarrow> string \<Rightarrow> bool" where
  "Contains s substr = sublist substr s"

text \<open>
  \<^verbatim>\<open>schema.ResourceData\<close> as far as the modelled functions use it: \<^verbatim>\<open>d.Get\<close> reads
  an attribute by its path, \<^verbatim>\<open>d.SetId\<close> writes the identifier.
\<close>

record ResourceData =
  Get :: "string \<Rightarrow> iface"
  ResId :: string

fun IsKeyInMap_range :: "string \<Rightarrow> string list \<Rightarrow> bool" where
  "IsKeyInMap_range key [] = False"
| "IsKeyInMap_range key (k # ks) = (if k = key then True else IsKeyInMap_range key ks)"

definition IsKeyInMap :: "string \<Rightarrow> (string \<times> iface) list \<Rightarrow> bool" where
  "IsKeyInMap key d = (if d = [] then False else IsKeyInMap_range key (map fst d))"

text \<open>
  \<open>IsInternalKey\<close> calls \<^verbatim>\<open>url.Parse\<close> and \<^verbatim>\<open>URL.Hostname\<close> of the Go standard
  library. They are the parameter \<open>url_Hostname\<close>: the host name of the parsed URL, or
  \<open>None\<close> when \<^verbatim>\<open>url.Parse\<close> returns an error.
\<close>

definition IsInternalKey :: "(string \<Rightarrow> string option) \<Rightarrow> string \<Rightarrow> bool" where
  "IsInternalKey url_Hostname annotationKey =
     (case url_Hostname (''//'' @ annotationKey) of
        None \<Rightarrow> False
      | Some host \<Rightarrow>
          if host = ''app.kubernetes.io'' then False
          else if host = ''service.beta.kubernetes.io'' then False
          else if HasSuffix host ''kubernetes.io'' then True
          else if Contains annotationKey ''deprecated.daemonset.template.generation'' then True
          else False)"

text \<open>
  \<open>ignoreKey\<close> calls \<^verbatim>\<open>regexp.MatchString\<close>, the parameter \<open>MatchString\<close>: pattern
  and subject to the pair of the match result and the pattern's compile error. The source
  drops the error.
\<close>

fun ignoreKey :: "(string \<Rightarrow> string \<Rightarrow> bool \<times> error option) \<Rightarrow> string \<Rightarrow> string list \<Rightarrow> bool" where
  "ignoreKey MatchString key [] = False"
| "ignoreKey MatchString key (e # expressions) =
     (if fst (MatchString e key) then True else ignoreKey MatchString key expressions)"

text \<open>
  Both filters range over the map and delete the current key from it. Deleting the key
  being visited does not disturb the iteration, so the loop runs over the keys the map had
  at the start.
\<close>

fun removeInternalKeys_range ::
  "(string \<Rightarrow> string option) \<Rightarrow> string list \<Rightarrow> (string \<times> string) list \<Rightarrow>
   (string \<times> iface) list \<Rightarrow> (string \<times> string) list" where
  "removeInternalKeys_range url_Hostname [] m d = m"
| "removeInternalKeys_range url_Hostname (k # ks) m d =
     removeInternalKeys_range url_Hostname ks
       (if IsInternalKey url_Hostname k \<and> \<not> IsKeyInMap k d then AList.delete k m else m) d"

definition removeInternalKeys ::
  "(string \<Rightarrow> string option) \<Rightarrow> (string \<times> string) list \<Rightarrow> (string \<times> iface) list \<Rightarrow>
   (string \<times> string) list" where
  "removeInternalKeys url_Hostname m d = removeInternalKeys_range url_Hostname (map fst m) m d"

fun removeKeys_range ::
  "(string \<Rightarrow> string \<Rightarrow> bool \<times> error option) \<Rightarrow> string list \<Rightarrow> (string \<times> string) list \<Rightarrow>
   (string \<times> iface) list \<Rightarrow> string list \<Rightarrow> (string \<times> string) list" where
  "removeKeys_range MatchString [] m d ignoreKubernetesMetadataKeys = m"
| "removeKeys_range MatchString (k # ks) m d ignoreKubernetesMetadataKeys =
     removeKeys_range MatchString ks
       (if ignoreKey MatchString k ignoreKubernetesMetadataKeys \<and> \<not> IsKeyInMap k d
        then AList.delete k m else m) d ignoreKubernetesMetadataKeys"

definition removeKeys ::
  "(string \<Rightarrow> string \<Rightarrow> bool \<times> error option) \<Rightarrow> (string \<times> string) list \<Rightarrow>
   (string \<times> iface) list \<Rightarrow> string list \<Rightarrow> (string \<times> string) list" where
  "removeKeys MatchString m d ignoreKubernetesMetadataKeys =
     removeKeys_range MatchString (map fst m) m d ignoreKubernetesMetadataKeys"

text \<open>
  The provider's handle \<^verbatim>\<open>provider.KubeClientsets\<close>: the main clientset (or the error
  of building it) and the provider's own configuration. Of the clientset, the namespace
  read of the core API is modelled.
\<close>

record NamespaceSpec =
  Finalizers :: "string list"

record Namespace_v1 =
  NamespaceObjectMeta :: ObjectMeta
  Spec :: NamespaceSpec

record Clientset =
  Namespaces_Get :: "string \<Rightarrow> error + Namespace_v1"

record KubeClientsets =
  MainClientset :: "error + Clientset"
  ConfigData :: ResourceData

text \<open>
  The provider-level ignore list: the comma-ok assertion to \<^verbatim>\<open>[]interface{}\<close> leaves
  the list nil when the attribute has another dynamic type.
\<close>

definition ignoreList :: "KubeClientsets \<Rightarrow> string \<Rightarrow> panic + string list" where
  "ignoreList providerMetadata key =
     (case Get (ConfigData providerMetadata) key of
        ISlice v \<Rightarrow> ExpandStringSlice v
      | _ \<Rightarrow> Inr [])"

definition FlattenMetadata ::
  "(string \<Rightarrow> string option) \<Rightarrow> (string \<Rightarrow> string \<Rightarrow> bool \<times> error option) \<Rightarrow>
   ObjectMeta \<Rightarrow> ResourceData \<Rightarrow> KubeClientsets \<Rightarrow> string list \<Rightarrow> panic + iface list" where
  "FlattenMetadata url_Hostname MatchString meta d providerMetadata metaPrefix =
     (let prefix = (if length metaPrefix > 0 then metaPrefix ! 0 else '''') in
      bindP (assert_map (Get d (prefix @ ''metadata.0.annotations''))) (\<lambda>configAnnotations.
      bindP (ignoreList providerMetadata ''ignore_annotations'') (\<lambda>ignoreAnnotations.
      let annotations = removeInternalKeys url_Hostname (Annotations meta) configAnnotations;
          m1 = AList.update ''annotations''
                 (IStringMap (removeKeys MatchString annotations configAnnotations ignoreAnnotations)) [];
          m2 = (if GenerateName meta \<noteq> ''''
                then AList.update ''generate_name'' (IString (GenerateName meta)) m1 else m1) in
      bindP (assert_map (Get d (prefix @ ''metadata.0.labels''))) (\<lambda>configLabels.
      bindP (ignoreList providerMetadata ''ignore_labels'') (\<lambda>ignoreLabels.
      let labels = removeInternalKeys url_Hostname (Labels meta) configLabels;
          m3 = AList.update ''labels''
                 (IStringMap (removeKeys MatchString labels configLabels ignoreLabels)) m2;
          m4 = AList.update ''name'' (IString (Name meta)) m3;
          m5 = AList.update ''resource_version'' (IString (ResourceVersion meta)) m4;
          m6 = AList.update ''uid'' (IString (UID meta)) m5;
          m7 = AList.update ''generation'' (IInt (Generation meta)) m6;
          m8 = (if Namespace meta \<noteq> ''''
                then AList.update ''namespace'' (IString (Namespace meta)) m7 else m7)
      in Inr [IMap m8])))))"

text \<open>
  Stand-ins for the two library parameters, used where a concrete run is evaluated. On a
  key \<open>host/path\<close> made of letters, digits, dots, dashes and slashes, \<^verbatim>\<open>url.Parse\<close> of
  \<open>//host/path\<close> succeeds with the host \<open>host\<close>; and a pattern without metacharacters
  matches exactly the subjects that contain it.
\<close>

definition plain_Hostname :: "string \<Rightarrow> string option" where
  "plain_Hostname rawURL = Some (takeWhile (\<lambda>c. c \<noteq> CHR ''/'') (drop 2 rawURL))"

definition literal_MatchString :: "string \<Rightarrow> string \<Rightarrow> bool \<times> error option" where
  "literal_MatchString pattern s = (Contains s pattern, None)"

text \<open>The prefix \<open>FlattenMetadata\<close> puts before the attribute paths it reads.\<close>

definition metaPrefix_head :: "string list \<Rightarrow> string" where
  "metaPrefix_head metaPrefix = (if length metaPrefix > 0 then metaPrefix ! 0 else [])"

subsection \<open>A concrete object and configuration\<close>

definition example_meta :: ObjectMeta where
  "example_meta =
     \<lparr>Name = ''team-a'', GenerateName = '''', Namespace = '''', ResourceVersion = ''41'',
      UID = ''u-1'', Generation = 1,
      Annotations = [(''node.kubernetes.io/zone'', ''a''), (''pv.kubernetes.io/keep'', ''yes''),
                     (''owner'', ''ops''), (''audit/ts'', ''9'')],
      Labels = [(''topology.kubernetes.io/region'', ''eu''), (''app.kubernetes.io/name'', ''db''),
                (''tier'', ''x'')]\<rparr>"

definition example_d :: ResourceData where
  "example_d =
     \<lparr>Get = (\<lambda>path.
        if path = ''metadata.0.annotations'' then
          IMap [(''pv.kubernetes.io/keep'', IString ''yes''), (''owner'', IString ''ops'')]
        else if path = ''metadata.0.labels'' then IMap [(''tier'', IString ''x'')]
        else if path = ''metadata'' then ISlice [IMap [(''name'', IString ''team-a'')]]
        else INil),
      ResId = ''''\<rparr>"

definition example_config :: ResourceData where
  "example_config =
     \<lparr>Get = (\<lambda>path.
        if path = ''ignore_annotations'' then ISlice [IString ''audit'']
        else if path = ''ignore_labels'' then ISlice [IString ''tier'']
        else INil),
      ResId = ''''\<rparr>"

definition example_provider :: KubeClientsets where
  "example_provider =
     \<lparr>MainClientset = Inl (StatusError ''Unauthorized'' ''no credentials''),
      ConfigData = example_config\<rparr>"

text \<open>What \<open>FlattenMetadata\<close> makes of the concrete object.\<close>

definition example_flattened :: "(string \<times> iface) list" where
  "example_flattened =
     [(''annotations'', IStringMap [(''pv.kubernetes.io/keep'', ''yes''), (''owner'', ''ops'')]),
      (''labels'', IStringMap [(''app.kubernetes.io/name'', ''db''), (''tier'', ''x'')]),
      (''name'', IString ''team-a''), (''resource_version'', IString ''41''),
      (''uid'', IString ''u-1''), (''generation'', IInt 1)]"

section \<open>Node selector terms\<close>

record NodeSelectorRequirement =
  Key :: string
  Operator :: string
  Values :: "string list"

record NodeSelectorTerm =
  MatchExpressions :: "NodeSelectorRequirement list"
  MatchFields :: "NodeSelectorRequirement list"

text \<open>
  \<open>NewStringSet\<close> boxes every string and hands the slice to \<^verbatim>\<open>schema.NewSet\<close>. The
  set is a library object: the model keeps the items it was built from, and what
  \<^verbatim>\<open>Set.List\<close> makes of them (an order by hash code, without duplicates) is the
  parameter \<open>Set_List\<close> of the functions that read a set.
\<close>

definition NewStringSet :: "string list \<Rightarrow> iface" where
  "NewStringSet inp = ISet (map IString inp)"

definition flattenNodeSelectorRequirementList ::
  "NodeSelectorRequirement list \<Rightarrow> (string \<times> iface) list list" where
  "flattenNodeSelectorRequirementList inp =
     map (\<lambda>v.
       let m1 = AList.update ''key'' (IString (Key v)) [];
           m2 = AList.update ''values'' (NewStringSet (Values v)) m1;
           m3 = AList.update ''operator'' (IString (Operator v)) m2
       in m3) inp"

fun expandNodeSelectorRequirementList_range ::
  "(iface list \<Rightarrow> iface list) \<Rightarrow> iface list \<Rightarrow> panic + NodeSelectorRequirement list" where
  "expandNodeSelectorRequirementList_range Set_List [] = Inr []"
| "expandNodeSelectorRequirementList_range Set_List (c # cs) =
     bindP (assert_map c) (\<lambda>p.
     bindP (assert_string (index_map p ''key'')) (\<lambda>key.
     bindP (assert_string (index_map p ''operator'')) (\<lambda>operator.
     bindP (assert_set (index_map p ''values'')) (\<lambda>items.
     bindP (ExpandStringSlice (Set_List items)) (\<lambda>values.
     bindP (expandNodeSelectorRequirementList_range Set_List cs) (\<lambda>att.
     Inr (\<lparr>Key = key, Operator = operator, Values = values\<rparr> # att)))))))"

definition expandNodeSelectorRequirementList ::
  "(iface list \<Rightarrow> iface list) \<Rightarrow> iface list \<Rightarrow> panic + NodeSelectorRequirement list" where
  "expandNodeSelectorRequirementList Set_List inp =
     (if length inp < 1 then Inr []
      else expandNodeSelectorRequirementList_range Set_List inp)"

text \<open>
  The flattened requirement lists are stored under their dynamic type
  \<^verbatim>\<open>[]map[string]interface{}\<close>.
\<close>

definition flattenNodeSelectorTerm :: "NodeSelectorTerm \<Rightarrow> iface list" where
  "flattenNodeSelectorTerm inp =
     (let att0 = [];
          att1 = (if length (MatchExpressions inp) > 0
                  then AList.update ''match_expressions''
                         (IMapSlice (flattenNodeSelectorRequirementList (MatchExpressions inp))) att0
                  else att0);
          att2 = (if length (MatchFields inp) > 0
                  then AList.update ''match_fields''
                         (IMapSlice (flattenNodeSelectorRequirementList (MatchFields inp))) att1
                  else att1)
      in [IMap att2])"

text \<open>
  The two comma-ok assertions of \<open>expandNodeSelectorTerm\<close> ask for the dynamic type
  \<^verbatim>\<open>[]interface{}\<close>; with any other dynamic type the field keeps its zero value.
\<close>

definition expandNodeSelectorTerm ::
  "(iface list \<Rightarrow> iface list) \<Rightarrow> iface list \<Rightarrow> panic + NodeSelectorTerm" where
  "expandNodeSelectorTerm Set_List l =
     (if length l = 0 then Inr \<lparr>MatchExpressions = [], MatchFields = []\<rparr>
      else if l ! 0 = INil then Inr \<lparr>MatchExpressions = [], MatchFields = []\<rparr>
      else
        bindP (assert_map (l ! 0)) (\<lambda>inp.
        let obj = \<lparr>MatchExpressions = [], MatchFields = []\<rparr> in
        bindP (case index_map inp ''match_expressions'' of
                 ISlice v \<Rightarrow>
                   if length v > 0
                   then bindP (expandNodeSelectorRequirementList Set_List v)
                          (\<lambda>r. Inr (obj\<lparr>MatchExpressions := r\<rparr>))
                   else Inr obj
               | _ \<Rightarrow> Inr obj) (\<lambda>obj.
        bindP (case index_map inp ''match_fields'' of
                 ISlice v \<Rightarrow>
                   if length v > 0
                   then bindP (expandNodeSelectorRequirementList Set_List v)
                          (\<lambda>r. Inr (obj\<lparr>MatchFields := r\<rparr>))
                   else Inr obj
               | _ \<Rightarrow> Inr obj) (\<lambda>obj.
        Inr obj))))"

definition flattenNodeSelectorTerms :: "NodeSelectorTerm list \<Rightarrow> iface list" where
  "flattenNodeSelectorTerms inp = map (\<lambda>n. flattenNodeSelectorTerm n ! 0) inp"

fun expandNodeSelectorTerms_range ::
  "(iface list \<Rightarrow> iface list) \<Rightarrow> iface list \<Rightarrow> panic + NodeSelectorTerm list" where
  "expandNodeSelectorTerms_range Set_List [] = Inr []"
| "expandNodeSelectorTerms_range Set_List (n # ns) =
     bindP (expandNodeSelectorTerm Set_List [n]) (\<lambda>t.
     bindP (expandNodeSelectorTerms_range Set_List ns) (\<lambda>obj. Inr (t # obj)))"

definition expandNodeSelectorTerms ::
  "(iface list \<Rightarrow> iface list) \<Rightarrow> iface list \<Rightarrow> panic + NodeSelectorTerm list" where
  "expandNodeSelectorTerms Set_List l =
     (if length l = 0 then Inr []
      else if l ! 0 = INil then Inr []
      else expandNodeSelectorTerms_range Set_List l)"

text \<open>A stand-in for \<^verbatim>\<open>Set.List\<close> that keeps the items in their order.\<close>

definition items_in_order :: "iface list \<Rightarrow> iface list" where
  "items_in_order items = items"

definition example_terms :: "NodeSelectorTerm list" where
  "example_terms =
     [\<lparr>MatchExpressions = [\<lparr>Key = ''zone'', Operator = ''In'', Values = [''a'', ''a'']\<rparr>],
       MatchFields = []\<rparr>]"


section \<open>Expanding metadata\<close>

fun ExpandStringMap_range ::
  "(string \<times> iface) list \<Rightarrow> (string \<times> string) list \<Rightarrow> panic + (string \<times> string) list" where
  "ExpandStringMap_range [] result = Inr result"
| "ExpandStringMap_range ((k, v) # m) result =
     bindP (assert_string v) (\<lambda>x. ExpandStringMap_range m (AList.update k x result))"

definition ExpandStringMap :: "(string \<times> iface) list \<Rightarrow> panic + (string \<times> string) list" where
  "ExpandStringMap m = ExpandStringMap_range m []"

definition ExpandMetadata :: "iface list \<Rightarrow> panic + ObjectMeta" where
  "ExpandMetadata inp =
     (let meta = \<lparr>Name = '''', GenerateName = '''', Namespace = '''', ResourceVersion = '''',
                  UID = '''', Generation = 0, Annotations = [], Labels = []\<rparr> in
      if length inp < 1 then Inr meta
      else
        bindP (assert_map (inp ! 0)) (\<lambda>m.
        bindP (case index_map m ''annotations'' of
                 IMap v \<Rightarrow>
                   if length v > 0
                   then bindP (ExpandStringMap v) (\<lambda>a. Inr (meta\<lparr>Annotations := a\<rparr>))
                   else Inr meta
               | _ \<Rightarrow> Inr meta) (\<lambda>meta.
        bindP (case index_map m ''labels'' of
                 IMap v \<Rightarrow>
                   if length v > 0
                   then bindP (ExpandStringMap v) (\<lambda>a. Inr (meta\<lparr>Labels := a\<rparr>))
                   else Inr meta
               | _ \<Rightarrow> Inr meta) (\<lambda>meta.
        bindP (case map_of m ''generate_name'' of
                 Some v \<Rightarrow> bindP (assert_string v) (\<lambda>x. Inr (meta\<lparr>GenerateName := x\<rparr>))
               | None \<Rightarrow> Inr meta) (\<lambda>meta.
        bindP (case map_of m ''name'' of
                 Some v \<Rightarrow> bindP (assert_string v) (\<lambda>x. Inr (meta\<lparr>Name := x\<rparr>))
               | None \<Rightarrow> Inr meta) (\<lambda>meta.
        bindP (case map_of m ''namespace'' of
                 Some v \<Rightarrow> bindP (assert_string v) (\<lambda>x. Inr (meta\<lparr>Namespace := x\<rparr>))
               | None \<Rightarrow> Inr meta) (\<lambda>meta.
        Inr meta)))))))"

section \<open>The namespace data source\<close>

text \<open>
  The read talks to the provider handle, to the cluster and to the resource data. Each
  such call is written to a trace, with its outcome where it can fail. Whether
  \<^verbatim>\<open>d.Set\<close> accepts a value is decided by the schema layer, the parameter
  \<open>Set_error\<close>; the attributes a successful \<^verbatim>\<open>d.Set\<close> stores are not read again by
  the function and are not part of the model.
\<close>

datatype event =
    MainClientsetCall "error option"
  | SetIdCall string
  | NamespacesGetCall string "error option"
  | SetCall string iface "error option"

fun call_failed :: "event \<Rightarrow> bool" where
  "call_failed (MainClientsetCall r) = (r \<noteq> None)"
| "call_failed (SetIdCall v) = False"
| "call_failed (NamespacesGetCall name r) = (r \<noteq> None)"
| "call_failed (SetCall key v r) = (r \<noteq> None)"

text \<open>\<^verbatim>\<open>diag.Diagnostics\<close> is a slice; \<^verbatim>\<open>diag.FromErr\<close> wraps one error.\<close>

type_synonym Diagnostics = "error list"

definition diag_FromErr :: "error \<Rightarrow> Diagnostics" where
  "diag_FromErr err = [err]"

definition flattenNamespaceSpec :: "NamespaceSpec option \<Rightarrow> iface list" where
  "flattenNamespaceSpec inp =
     (case inp of
        None \<Rightarrow> []
      | Some spec \<Rightarrow>
          if length (Finalizers spec) = 0 then []
          else
            (let fin = map (\<lambda>f. f) (Finalizers spec);
                 spec1 = AList.update ''finalizers'' (IStringSlice fin) []
             in [IMap spec1]))"

definition dataSourceKubernetesNamespaceRead ::
  "(string \<Rightarrow> string option) \<Rightarrow> (string \<Rightarrow> string \<Rightarrow> bool \<times> error option) \<Rightarrow>
   (string \<Rightarrow> iface \<Rightarrow> error option) \<Rightarrow> ResourceData \<Rightarrow> KubeClientsets \<Rightarrow>
   panic + (Diagnostics \<times> ResourceData \<times> event list)" where
  "dataSourceKubernetesNamespaceRead url_Hostname MatchString Set_error d meta =
     (case MainClientset meta of
        Inl err \<Rightarrow> Inr (diag_FromErr err, d, [MainClientsetCall (Some err)])
      | Inr conn \<Rightarrow>
          let t1 = [MainClientsetCall None] in
          bindP (assert_slice (Get d ''metadata'')) (\<lambda>md.
          bindP (ExpandMetadata md) (\<lambda>metadata.
          let d1 = d\<lparr>ResId := Name metadata\<rparr>;
              t2 = t1 @ [SetIdCall (Name metadata)] in
          (case Namespaces_Get conn (Name metadata) of
             Inl err \<Rightarrow>
               Inr (diag_FromErr err, d1, t2 @ [NamespacesGetCall (Name metadata) (Some err)])
           | Inr namespace \<Rightarrow>
               let t3 = t2 @ [NamespacesGetCall (Name metadata) None] in
               bindP (FlattenMetadata url_Hostname MatchString (NamespaceObjectMeta namespace)
                        d1 meta []) (\<lambda>fm.
               (case Set_error ''metadata'' (ISlice fm) of
                  Some err \<Rightarrow>
                    Inr (diag_FromErr err, d1, t3 @ [SetCall ''metadata'' (ISlice fm) (Some err)])
                | None \<Rightarrow>
                    let t4 = t3 @ [SetCall ''metadata'' (ISlice fm) None];
                        sp = ISlice (flattenNamespaceSpec (Some (Spec namespace))) in
                    (case Set_error ''spec'' sp of
                       Some err \<Rightarrow> Inr (diag_FromErr err, d1, t4 @ [SetCall ''spec'' sp (Some err)])
                     | None \<Rightarrow> Inr ([], d1, t4 @ [SetCall ''spec'' sp None]))))))))"

subsection \<open>A cluster without the namespace, and one with it\<close>

definition example_absent :: KubeClientsets where
  "example_absent =
     \<lparr>MainClientset = Inr \<lparr>Namespaces_Get = (\<lambda>name. Inl (StatusError ''NotFound'' name))\<rparr>,
      ConfigData = example_config\<rparr>"

definition example_present :: KubeClientsets where
  "example_present =
     \<lparr>MainClientset =
        Inr \<lparr>Namespaces_Get = (\<lambda>name.
               Inr \<lparr>NamespaceObjectMeta = example_meta, Spec = \<lparr>Finalizers = [''kubernetes'']\<rparr>\<rparr>)\<rparr>,
      ConfigData = example_config\<rparr>"

definition accept_all :: "string \<Rightarrow> iface \<Rightarrow> error option" where
  "accept_all key v = None"

definition reject_spec :: "string \<Rightarrow> iface \<Rightarrow> error option" where
  "reject_spec key v = (if key = ''spec'' then Some (Errorf ''spec: cannot be set'' []) else None)"

section \<open>Waiting for the default service account\<close>

text \<open>\<^verbatim>\<open>resource.RetryError\<close> of the plugin SDK with its two constructors.\<close>

record RetryError =
  Err :: error
  Retryable :: bool

definition RetryableError :: "error \<Rightarrow> RetryError option" where
  "RetryableError err = Some \<lparr>Err = err, Retryable = True\<rparr>"

definition NonRetryableError :: "error \<Rightarrow> RetryError option" where
  "NonRetryableError err = Some \<lparr>Err = err, Retryable = False\<rparr>"

text \<open>
  The function literal that \<open>resourceKubernetesDefaultServiceAccountCreate\<close> passes to
  \<^verbatim>\<open>resource.RetryContext\<close>, as a function of the outcome of its \<^verbatim>\<open>Get\<close> call. It
  asks \<^verbatim>\<open>errors.IsNotFound\<close> of the API machinery what kind of error it has; that
  library function is the parameter \<open>IsNotFound\<close>.
\<close>

definition defaultServiceAccount_retryFunc ::
  "(error \<Rightarrow> bool) \<Rightarrow> error + 'sa \<Rightarrow> RetryError option" where
  "defaultServiceAccount_retryFunc IsNotFound got =
     (case got of
        Inl err \<Rightarrow> if IsNotFound err then RetryableError err else NonRetryableError err
      | Inr sa \<Rightarrow> None)"

text \<open>
  Modelled from the spec: \<^verbatim>\<open>resource.RetryContext\<close> belongs to the plugin SDK and
  is not in the repository; the spec names it the context-based retry loop of the client
  library. The function is called again as long as it returns a retryable error, until
  the timeout, here the number of calls the timeout leaves room for. The result is the
  error, if any, and the number of calls made; on a timeout the error is the last
  retryable one.
\<close>

fun RetryContext_loop ::
  "nat \<Rightarrow> (nat \<Rightarrow> RetryError option) \<Rightarrow> nat \<Rightarrow> error option \<Rightarrow> error option \<times> nat" where
  "RetryContext_loop 0 f i resultErr =
     ((case resultErr of None \<Rightarrow> Some TimeoutError | Some err \<Rightarrow> Some err), i)"
| "RetryContext_loop (Suc timeout) f i resultErr =
     (case f i of
        None \<Rightarrow> (None, Suc i)
      | Some rerr \<Rightarrow>
          if Retryable rerr then RetryContext_loop timeout f (Suc i) (Some (Err rerr))
          else (Some (Err rerr), Suc i))"

definition RetryContext :: "nat \<Rightarrow> (nat \<Rightarrow> RetryError option) \<Rightarrow> error option \<times> nat" where
  "RetryContext timeout f = RetryContext_loop timeout f 0 None"

text \<open>
  The create operation up to the end of its wait: \<open>serviceAccounts_Get i\<close> is what the
  cluster answers to the \<open>i\<close>-th \<^verbatim>\<open>Get\<close>. The result is the diagnostics returned at
  this point, or \<open>None\<close> when the operation goes on, together with the number of
  \<^verbatim>\<open>Get\<close> calls.
\<close>

definition resourceKubernetesDefaultServiceAccountCreate_wait ::
  "(error \<Rightarrow> bool) \<Rightarrow> nat \<Rightarrow> (nat \<Rightarrow> error + 'sa) \<Rightarrow> Diagnostics option \<times> nat" where
  "resourceKubernetesDefaultServiceAccountCreate_wait IsNotFound timeout serviceAccounts_Get =
     (case RetryContext timeout
             (\<lambda>i. defaultServiceAccount_retryFunc IsNotFound (serviceAccounts_Get i)) of
        (Some err, calls) \<Rightarrow> (Some (diag_FromErr err), calls)
      | (None, calls) \<Rightarrow> (None, calls))"

subsection \<open>Concrete answers of the cluster\<close>

text \<open>
  A stand-in for \<^verbatim>\<open>errors.IsNotFound\<close>, used only on the two status errors of the
  concrete runs: the library function is true of a status error with the reason
  \<open>NotFound\<close> and false of one with the reason \<open>Forbidden\<close>.
\<close>

fun example_IsNotFound :: "error \<Rightarrow> bool" where
  "example_IsNotFound (StatusError reason message) = (reason = ''NotFound'')"
| "example_IsNotFound err = False"

definition example_answers :: "nat \<Rightarrow> error + string" where
  "example_answers i = (if i < 2 then Inl (StatusError ''NotFound'' ''default'') else Inr ''default'')"

definition example_forbidden :: "nat \<Rightarrow> error + string" where
  "example_forbidden i =
     (if i < 1 then Inl (StatusError ''NotFound'' ''default'')
      else Inl (StatusError ''Forbidden'' ''default''))"

section \<open>Limit ranges\<close>

text \<open>
  A \<^verbatim>\<open>ResourceList\<close> maps resource names to quantities. \<^verbatim>\<open>resource.Quantity\<close> is a
  library type, here the type parameter \<open>'q\<close>; its two constructors
  \<^verbatim>\<open>resource.NewQuantity\<close> (with the decimal format) and \<^verbatim>\<open>resource.ParseQuantity\<close>
  are the parameters \<open>NewQuantity\<close> and \<open>ParseQuantity\<close>.
\<close>

type_synonym 'q ResourceList = "(string \<times> 'q) list"

fun ExpandMapToResourceList_range ::
  "(int \<Rightarrow> 'q) \<Rightarrow> (string \<Rightarrow> error + 'q) \<Rightarrow> (string \<times> iface) list \<Rightarrow> 'q ResourceList \<Rightarrow>
   'q ResourceList \<times> error option" where
  "ExpandMapToResourceList_range NewQuantity ParseQuantity [] out = (out, None)"
| "ExpandMapToResourceList_range NewQuantity ParseQuantity ((stringKey, origValue) # m) out =
     (case origValue of
        IInt v \<Rightarrow>
          ExpandMapToResourceList_range NewQuantity ParseQuantity m
            (AList.update stringKey (NewQuantity v) out)
      | IString v \<Rightarrow>
          (case ParseQuantity v of
             Inl err \<Rightarrow> (out, Some err)
           | Inr value \<Rightarrow>
               ExpandMapToResourceList_range NewQuantity ParseQuantity m
                 (AList.update stringKey value out))
      | _ \<Rightarrow> (out, Some (Errorf ''Unexpected value type: %#v'' [origValue])))"

definition ExpandMapToResourceList ::
  "(int \<Rightarrow> 'q) \<Rightarrow> (string \<Rightarrow> error + 'q) \<Rightarrow> (string \<times> iface) list \<Rightarrow>
   'q ResourceList \<times> error option" where
  "ExpandMapToResourceList NewQuantity ParseQuantity m =
     ExpandMapToResourceList_range NewQuantity ParseQuantity m []"

text \<open>
  The fields of \<^verbatim>\<open>api.LimitRangeItem\<close> carry the prefix \<open>Item\<close>: \<open>Max\<close> and
  \<open>Min\<close> are taken in HOL.
\<close>

record 'q LimitRangeItem =
  ItemType :: string
  ItemMax :: "'q ResourceList"
  ItemMin :: "'q ResourceList"
  ItemDefault :: "'q ResourceList"
  ItemDefaultRequest :: "'q ResourceList"
  ItemMaxLimitRequestRatio :: "'q ResourceList"

record 'q LimitRangeSpec =
  Limits :: "'q LimitRangeItem list"

text \<open>The constant \<^verbatim>\<open>api.LimitTypePod\<close> of the Kubernetes API.\<close>

definition LimitTypePod :: string where
  "LimitTypePod = ''Pod''"

text \<open>
  The body of the loop can panic, return an error, or go on with a value: the three
  outcomes of \<open>panic + error + 'a\<close>.
\<close>

definition bindE :: "panic + error + 'a \<Rightarrow> ('a \<Rightarrow> panic + error + 'b) \<Rightarrow> panic + error + 'b" where
  "bindE r f = (case r of Inl p \<Rightarrow> Inl p | Inr (Inl err) \<Rightarrow> Inr (Inl err) | Inr (Inr x) \<Rightarrow> f x)"

definition asserted :: "panic + 'a \<Rightarrow> panic + error + 'a" where
  "asserted r = (case r of Inl p \<Rightarrow> Inl p | Inr x \<Rightarrow> Inr (Inr x))"

text \<open>
  The body of the loop over the limits, for the entry \<open>l\<close> at index \<open>i\<close>, is a
  sequence of blocks, one for each attribute of the entry; each block goes on with the
  item it has filled in so far. First the block for \<open>type\<close>.
\<close>

definition expandLimitType ::
  "(string \<times> iface) list \<Rightarrow> 'q LimitRangeItem \<Rightarrow> panic + error + 'q LimitRangeItem" where
  "expandLimitType limit lrItem =
     (case map_of limit ''type'' of
        Some v \<Rightarrow> bindE (asserted (assert_string v)) (\<lambda>x. Inr (Inr (lrItem\<lparr>ItemType := x\<rparr>)))
      | None \<Rightarrow> Inr (Inr lrItem))"

text \<open>
  The block for \<open>default_request\<close>: forbidden for Pod limits, an error for a new
  object and otherwise not sent back.
\<close>

definition expandDefaultRequest ::
  "(int \<Rightarrow> 'q) \<Rightarrow> (string \<Rightarrow> error + 'q) \<Rightarrow> bool \<Rightarrow> nat \<Rightarrow> (string \<times> iface) list \<Rightarrow>
   'q LimitRangeItem \<Rightarrow> panic + error + 'q LimitRangeItem" where
  "expandDefaultRequest NewQuantity ParseQuantity isNew i limit lrItem =
     (case map_of limit ''default_request'' of
        Some v \<Rightarrow>
          bindE (asserted (assert_map v)) (\<lambda>drm.
            if ItemType lrItem = LimitTypePod \<and> length drm > 0 then
              (if isNew then
                 Inr (Inl (Errorf ''limit.%d.default_request cannot be set for Pod limit''
                             [IInt (int i)]))
               else Inr (Inr lrItem))
            else
              (case ExpandMapToResourceList NewQuantity ParseQuantity drm of
                 (el, Some err) \<Rightarrow> Inr (Inl err)
               | (el, None) \<Rightarrow> Inr (Inr (lrItem\<lparr>ItemDefaultRequest := el\<rparr>))))
      | None \<Rightarrow> Inr (Inr lrItem))"

text \<open>
  The blocks for \<open>default\<close>, \<open>max\<close>, \<open>max_limit_request_ratio\<close> and \<open>min\<close>
  have one shape: assert a map, expand it, return the error of the expansion or store
  the list in the field of the block.
\<close>

definition expandResourceField ::
  "(int \<Rightarrow> 'q) \<Rightarrow> (string \<Rightarrow> error + 'q) \<Rightarrow> iface \<Rightarrow> panic + error + 'q ResourceList" where
  "expandResourceField NewQuantity ParseQuantity v =
     bindE (asserted (assert_map v)) (\<lambda>m.
       case ExpandMapToResourceList NewQuantity ParseQuantity m of
         (el, Some err) \<Rightarrow> Inr (Inl err)
       | (el, None) \<Rightarrow> Inr (Inr el))"

definition expandLimitField ::
  "(int \<Rightarrow> 'q) \<Rightarrow> (string \<Rightarrow> error + 'q) \<Rightarrow> (string \<times> iface) list \<Rightarrow> string \<Rightarrow>
   ('q ResourceList \<Rightarrow> 'q LimitRangeItem \<Rightarrow> 'q LimitRangeItem) \<Rightarrow> 'q LimitRangeItem \<Rightarrow>
   panic + error + 'q LimitRangeItem" where
  "expandLimitField NewQuantity ParseQuantity limit key store lrItem =
     (case map_of limit key of
        Some v \<Rightarrow> bindE (expandResourceField NewQuantity ParseQuantity v)
                   (\<lambda>el. Inr (Inr (store el lrItem)))
      | None \<Rightarrow> Inr (Inr lrItem))"

definition expandLimitRangeItem ::
  "(int \<Rightarrow> 'q) \<Rightarrow> (string \<Rightarrow> error + 'q) \<Rightarrow> bool \<Rightarrow> nat \<Rightarrow> iface \<Rightarrow>
   panic + error + 'q LimitRangeItem" where
  "expandLimitRangeItem NewQuantity ParseQuantity isNew i l =
     (let lrItem = \<lparr>ItemType = '''', ItemMax = [], ItemMin = [], ItemDefault = [],
                    ItemDefaultRequest = [], ItemMaxLimitRequestRatio = []\<rparr> in
      bindE (asserted (assert_map l)) (\<lambda>limit.
      bindE (expandLimitType limit lrItem) (\<lambda>lrItem.
      bindE (expandDefaultRequest NewQuantity ParseQuantity isNew i limit lrItem) (\<lambda>lrItem.
      bindE (expandLimitField NewQuantity ParseQuantity limit ''default''
               (\<lambda>el item. item\<lparr>ItemDefault := el\<rparr>) lrItem) (\<lambda>lrItem.
      bindE (expandLimitField NewQuantity ParseQuantity limit ''max''
               (\<lambda>el item. item\<lparr>ItemMax := el\<rparr>) lrItem) (\<lambda>lrItem.
      bindE (expandLimitField NewQuantity ParseQuantity limit ''max_limit_request_ratio''
               (\<lambda>el item. item\<lparr>ItemMaxLimitRequestRatio := el\<rparr>) lrItem) (\<lambda>lrItem.
      bindE (expandLimitField NewQuantity ParseQuantity limit ''min''
               (\<lambda>el item. item\<lparr>ItemMin := el\<rparr>) lrItem) (\<lambda>lrItem.
      Inr (Inr lrItem)))))))))"

fun ExpandLimitRangeSpec_range ::
  "(int \<Rightarrow> 'q) \<Rightarrow> (string \<Rightarrow> error + 'q) \<Rightarrow> bool \<Rightarrow> nat \<Rightarrow> iface list \<Rightarrow>
   panic + error + 'q LimitRangeItem list" where
  "ExpandLimitRangeSpec_range NewQuantity ParseQuantity isNew i [] = Inr (Inr [])"
| "ExpandLimitRangeSpec_range NewQuantity ParseQuantity isNew i (l # limits) =
     bindE (expandLimitRangeItem NewQuantity ParseQuantity isNew i l) (\<lambda>lrItem.
     bindE (ExpandLimitRangeSpec_range NewQuantity ParseQuantity isNew (Suc i) limits) (\<lambda>newLimits.
     Inr (Inr (lrItem # newLimits))))"

text \<open>
  The function returns the pair of the specification and the error: on an error the
  specification is the empty one it started with.
\<close>

definition ExpandLimitRangeSpec ::
  "(int \<Rightarrow> 'q) \<Rightarrow> (string \<Rightarrow> error + 'q) \<Rightarrow> iface list \<Rightarrow> bool \<Rightarrow>
   panic + ('q LimitRangeSpec \<times> error option)" where
  "ExpandLimitRangeSpec NewQuantity ParseQuantity s isNew =
     (let out = \<lparr>Limits = []\<rparr> in
      if length s < 1 then Inr (out, None)
      else if s ! 0 = INil then Inr (out, None)
      else
        bindP (assert_map (s ! 0)) (\<lambda>m.
          case index_map m ''limit'' of
            ISlice limits \<Rightarrow>
              (case ExpandLimitRangeSpec_range NewQuantity ParseQuantity isNew 0 limits of
                 Inl p \<Rightarrow> Inl p
               | Inr (Inl err) \<Rightarrow> Inr (out, Some err)
               | Inr (Inr newLimits) \<Rightarrow> Inr (out\<lparr>Limits := newLimits\<rparr>, None))
          | _ \<Rightarrow> Inr (out, None)))"










subsection \<open>Concrete limits\<close>

text \<open>
  Stand-ins for the quantity constructors: a quantity remembers how it was built, and
  the empty string does not parse.
\<close>

datatype example_quantity = FromInt int | Parsed string

definition example_ParseQuantity :: "string \<Rightarrow> error + example_quantity" where
  "example_ParseQuantity s = (if s = [] then Inl (ParseError s) else Inr (Parsed s))"

definition example_entries :: "iface list" where
  "example_entries =
     [IMap [(''type'', IString ''Container''),
            (''default_request'', IMap [(''cpu'', IInt 1)]),
            (''max'', IMap [(''cpu'', IString ''4'')])],
      IMap [(''type'', IString ''Pod''),
            (''default_request'', IMap [(''cpu'', IInt 2)]),
            (''default'', IMap [(''memory'', IInt 3)]),
            (''min'', IMap [(''cpu'', IInt 1)])]]"

definition example_limits :: "iface list" where
  "example_limits = [IMap [(''limit'', ISlice example_entries)]]"

section \<open>Properties of the identifiers\<close>

lemma Split_not_Nil: "Split c s \<noteq> []"
  by (induction s) (auto split: list.splits)

lemma Split_no_sep: "c \<notin> set s \<Longrightarrow> Split c s = [s]"
  by (induction s) auto

lemma Split_append_sep: "c \<notin> set a \<Longrightarrow> Split c (a @ c # b) = a # Split c b"
  by (induction a) auto

lemma Split_parts_no_sep: "p \<in> set (Split c s) \<Longrightarrow> c \<notin> set p"
proof (induction s arbitrary: p)
  case Nil
  then show ?case by simp
next
  case (Cons x xs)
  show ?case
  proof (cases "x = c")
    case True
    with Cons show ?thesis by auto
  next
    case False
    obtain q qs where q: "Split c xs = q # qs"
      using Split_not_Nil [of c xs] by (cases "Split c xs") auto
    with Cons False show ?thesis by auto
  qed
qed

lemma Split_two_decompose:
  assumes "Split c s = [a, b]"
  shows "s = a @ c # b"
  using assms
proof (induction s arbitrary: a)
  case Nil
  then show ?case by simp
next
  case (Cons x xs)
  show ?case
  proof (cases "x = c")
    case True
    with Cons.prems have a: "a = []" and b: "Split c xs = [b]" by auto
    have "xs = b"
      using b
    proof (induction xs arbitrary: b)
      case Nil
      then show ?case by simp
    next
      case (Cons y ys)
      then show ?case
        using Split_not_Nil [of c ys]
        by (cases "Split c ys") (auto split: if_splits)
    qed
    with a True show ?thesis by simp
  next
    case False
    obtain q qs where q: "Split c xs = q # qs"
      using Split_not_Nil [of c xs] by (cases "Split c xs") auto
    with Cons.prems False have "a = x # q" and "qs = [b]" by auto
    with q Cons.IH [of q] show ?thesis by simp
  qed
qed

lemma length_Split_two_iff:
  "length (Split c s) = 2 \<longleftrightarrow> (\<exists>a b. s = a @ c # b \<and> c \<notin> set a \<and> c \<notin> set b)"
proof
  assume "length (Split c s) = 2"
  then obtain a b where ab: "Split c s = [a, b]"
    by (cases "Split c s"; cases "tl (Split c s)") auto
  then have "s = a @ c # b" by (rule Split_two_decompose)
  moreover have "c \<notin> set a" "c \<notin> set b"
    using Split_parts_no_sep [of _ c s] ab by auto
  ultimately show "\<exists>a b. s = a @ c # b \<and> c \<notin> set a \<and> c \<notin> set b" by blast
next
  assume "\<exists>a b. s = a @ c # b \<and> c \<notin> set a \<and> c \<notin> set b"
  then show "length (Split c s) = 2"
    by (auto simp: Split_append_sep Split_no_sep)
qed

text \<open>
  C8. When neither the namespace nor the name contains a slash (the namespace may be
  empty), \<open>IdParts\<close> of \<open>BuildId\<close> gives back the namespace and the name with no error;
  and \<open>IdParts\<close> returns an error exactly when its argument is not of the form
  \<open>a/b\<close> with slash-free \<open>a\<close> and \<open>b\<close>, that is, when it does not consist of exactly
  two slash-separated parts.
\<close>

theorem IdParts_BuildId_roundtrip:
  "(CHR ''/'' \<notin> set (Namespace meta) \<and> CHR ''/'' \<notin> set (Name meta) \<longrightarrow>
      IdParts (BuildId meta) = (Namespace meta, Name meta, None)) \<and>
   ((snd (snd (IdParts ident)) \<noteq> None) \<longleftrightarrow>
      \<not> (\<exists>a b. ident = a @ ''/'' @ b \<and> CHR ''/'' \<notin> set a \<and> CHR ''/'' \<notin> set b))"
proof (intro conjI impI)
  assume "CHR ''/'' \<notin> set (Namespace meta) \<and> CHR ''/'' \<notin> set (Name meta)"
  then have "Split CHR ''/'' (BuildId meta) = [Namespace meta, Name meta]"
    by (simp add: BuildId_def Split_append_sep Split_no_sep)
  then show "IdParts (BuildId meta) = (Namespace meta, Name meta, None)"
    by (simp add: IdParts_def)
next
  have "(snd (snd (IdParts ident)) \<noteq> None) \<longleftrightarrow> length (Split CHR ''/'' ident) \<noteq> 2"
    by (simp add: IdParts_def Let_def)
  then show "(snd (snd (IdParts ident)) \<noteq> None) \<longleftrightarrow>
      \<not> (\<exists>a b. ident = a @ ''/'' @ b \<and> CHR ''/'' \<notin> set a \<and> CHR ''/'' \<notin> set b)"
    by (simp add: length_Split_two_iff)
qed

theorem IdParts_BuildId_roundtrip_witness:
  "IdParts (BuildId example_meta) = ('''', ''team-a'', None) \<and>
   snd (snd (IdParts ''prod/web'')) = None \<and>
   snd (snd (IdParts ''prod/web/x'')) \<noteq> None"
proof -
  have "\<exists>a b. ''prod/web'' = a @ ''/'' @ b \<and> CHR ''/'' \<notin> set a \<and> CHR ''/'' \<notin> set b"
    by (rule exI [of _ "''prod''"], rule exI [of _ "''web''"]) simp
  moreover have "snd (snd (IdParts ''prod/web/x'')) \<noteq> None"
    by (simp add: IdParts_def)
  ultimately show ?thesis
    using IdParts_BuildId_roundtrip [of example_meta "''prod/web''"]
    by (simp add: example_meta_def)
qed

section \<open>Properties of the string slices\<close>

lemma ExpandStringSlice_ok:
  assumes "\<forall>v \<in> set s. v = INil \<or> (\<exists>x. v = IString x)"
  shows "ExpandStringSlice s = Inr (map (\<lambda>v. case v of IString x \<Rightarrow> x | _ \<Rightarrow> []) s)"
  using assms
  by (induction s) (auto simp: bindP_def assert_string_def)

lemma ExpandStringSlice_Inr_elems:
  "ExpandStringSlice s = Inr r \<Longrightarrow> v \<in> set s \<Longrightarrow> v = INil \<or> (\<exists>x. v = IString x)"
  by (induction s arbitrary: r)
     (auto simp: bindP_def assert_string_def split: if_splits sum.splits iface.splits)

text \<open>An element that is neither nil nor a string makes the type assertion panic.\<close>

lemma ExpandStringSlice_panics:
  assumes "v \<in> set s" and "v \<noteq> INil" and "\<forall>x. v \<noteq> IString x"
  shows "ExpandStringSlice s = Inl InterfaceConversion"
proof (cases "ExpandStringSlice s")
  case (Inl p)
  then show ?thesis by (cases p) simp
next
  case (Inr r)
  from ExpandStringSlice_Inr_elems [OF this assms(1)] assms(2,3) show ?thesis by blast
qed

text \<open>
  C10. On a list whose elements are nil or strings, \<open>ExpandStringSlice\<close> returns a
  string slice of the same length; element \<open>i\<close> is the empty string when the input
  element is nil, and the input string otherwise. It does not fail on nil elements.
\<close>

theorem ExpandStringSlice_elements:
  assumes "\<forall>v \<in> set s. v = INil \<or> (\<exists>x. v = IString x)"
  shows "\<exists>result. ExpandStringSlice s = Inr result \<and> length result = length s \<and>
           (\<forall>i < length s. (s ! i = INil \<longrightarrow> result ! i = '''') \<and>
                            (\<forall>x. s ! i = IString x \<longrightarrow> result ! i = x))"
  using ExpandStringSlice_ok [OF assms] by auto

theorem ExpandStringSlice_elements_witness:
  "ExpandStringSlice [IString ''a'', INil, IString ''b''] = Inr [''a'', '''', ''b'']"
proof -
  have "\<forall>v \<in> set [IString ''a'', INil, IString ''b'']. v = INil \<or> (\<exists>x. v = IString x)"
    by simp
  from ExpandStringSlice_elements [OF this] obtain result where
    r: "ExpandStringSlice [IString ''a'', INil, IString ''b''] = Inr result"
    and len: "length result = 3"
    and el: "\<forall>i < 3. ([IString ''a'', INil, IString ''b''] ! i = INil \<longrightarrow> result ! i = '''') \<and>
               (\<forall>x. [IString ''a'', INil, IString ''b''] ! i = IString x \<longrightarrow> result ! i = x)"
    by auto
  have "result ! 0 = ''a''" "result ! 1 = ''''" "result ! 2 = ''b''"
    using el [rule_format, of 0] el [rule_format, of 1] el [rule_format, of 2] by simp_all
  with len have "result = [''a'', '''', ''b'']"
    by (cases result; cases "tl result"; cases "tl (tl result)") (auto simp: numeral_2_eq_2)
  with r show ?thesis by simp
qed

section \<open>Properties of the metadata filters\<close>

lemma IsKeyInMap_range_iff: "IsKeyInMap_range key ks \<longleftrightarrow> key \<in> set ks"
  by (induction ks) auto

lemma IsKeyInMap_iff: "IsKeyInMap key d \<longleftrightarrow> key \<in> fst ` set d"
  by (simp add: IsKeyInMap_def IsKeyInMap_range_iff)

lemma ignoreKey_iff: "ignoreKey MatchString key es \<longleftrightarrow> (\<exists>e \<in> set es. fst (MatchString e key))"
  by (induction es) auto

text \<open>Each loop leaves exactly the entries whose key it does not delete.\<close>

lemma removeInternalKeys_range_filter:
  "removeInternalKeys_range h ks m d =
     filter (\<lambda>(k, v). \<not> (k \<in> set ks \<and> IsInternalKey h k \<and> \<not> IsKeyInMap k d)) m"
proof (induction ks arbitrary: m)
  case Nil
  then show ?case by simp
next
  case (Cons k ks)
  show ?case
    by (auto simp: Cons.IH AList.delete_eq intro!: filter_cong)
qed

lemma removeInternalKeys_filter:
  "removeInternalKeys h m d =
     filter (\<lambda>(k, v). \<not> (IsInternalKey h k \<and> \<not> IsKeyInMap k d)) m"
  unfolding removeInternalKeys_def removeInternalKeys_range_filter
  by (rule filter_cong) force+

lemma removeKeys_range_filter:
  "removeKeys_range ms ks m d ign =
     filter (\<lambda>(k, v). \<not> (k \<in> set ks \<and> ignoreKey ms k ign \<and> \<not> IsKeyInMap k d)) m"
proof (induction ks arbitrary: m)
  case Nil
  then show ?case by simp
next
  case (Cons k ks)
  show ?case
    by (auto simp: Cons.IH AList.delete_eq intro!: filter_cong)
qed

lemma removeKeys_filter:
  "removeKeys ms m d ign =
     filter (\<lambda>(k, v). \<not> (ignoreKey ms k ign \<and> \<not> IsKeyInMap k d)) m"
  unfolding removeKeys_def removeKeys_range_filter
  by (rule filter_cong) force+

lemma map_of_filter_keep:
  "(\<And>v. P (k, v)) \<Longrightarrow> map_of (filter P m) k = map_of m k"
  by (induction m) auto

text \<open>What a returning call of \<open>FlattenMetadata\<close> has read and what it has stored.\<close>

lemma FlattenMetadata_Inr:
  assumes "FlattenMetadata h ms meta d pm metaPrefix = Inr out"
  shows "\<exists>ca cl ia il m.
           Get d (metaPrefix_head metaPrefix @ ''metadata.0.annotations'') = IMap ca \<and>
           Get d (metaPrefix_head metaPrefix @ ''metadata.0.labels'') = IMap cl \<and>
           ignoreList pm ''ignore_annotations'' = Inr ia \<and>
           ignoreList pm ''ignore_labels'' = Inr il \<and>
           out = [IMap m] \<and>
           map_of m ''annotations'' =
             Some (IStringMap (removeKeys ms (removeInternalKeys h (Annotations meta) ca) ca ia)) \<and>
           map_of m ''labels'' =
             Some (IStringMap (removeKeys ms (removeInternalKeys h (Labels meta) cl) cl il))"
  using assms
  unfolding FlattenMetadata_def Let_def bindP_def assert_map_def metaPrefix_head_def
  by (auto split: sum.splits iface.splits simp: update_conv')

text \<open>
  It returns whenever the two configured attributes are maps and the two ignore lists
  expand: no other step can panic.
\<close>

lemma FlattenMetadata_returns:
  assumes "Get d (metaPrefix_head metaPrefix @ ''metadata.0.annotations'') = IMap ca"
    and "Get d (metaPrefix_head metaPrefix @ ''metadata.0.labels'') = IMap cl"
    and "ignoreList pm ''ignore_annotations'' = Inr ia"
    and "ignoreList pm ''ignore_labels'' = Inr il"
  shows "\<exists>out. FlattenMetadata h ms meta d pm metaPrefix = Inr out"
  using assms
  unfolding FlattenMetadata_def Let_def bindP_def assert_map_def metaPrefix_head_def
  by simp

lemma example_run:
  "FlattenMetadata plain_Hostname literal_MatchString example_meta example_d example_provider [] =
   Inr [IMap [(''annotations'', IStringMap [(''pv.kubernetes.io/keep'', ''yes''), (''owner'', ''ops'')]),
              (''labels'', IStringMap [(''app.kubernetes.io/name'', ''db''), (''tier'', ''x'')]),
              (''name'', IString ''team-a''), (''resource_version'', IString ''41''),
              (''uid'', IString ''u-1''), (''generation'', IInt 1)]]"
  by code_simp

lemma example_config_read:
  "Get example_d (metaPrefix_head [] @ ''metadata.0.annotations'') =
     IMap [(''pv.kubernetes.io/keep'', IString ''yes''), (''owner'', IString ''ops'')]"
  "Get example_d (metaPrefix_head [] @ ''metadata.0.labels'') = IMap [(''tier'', IString ''x'')]"
  "ignoreList example_provider ''ignore_annotations'' = Inr [''audit'']"
  "ignoreList example_provider ''ignore_labels'' = Inr [''tier'']"
  by (simp_all add: example_d_def metaPrefix_head_def ignoreList_def example_provider_def
        example_config_def bindP_def assert_string_def)

text \<open>
  C1. The annotations map that \<open>FlattenMetadata\<close> returns has no key that is internal
  and is not a key of the configured annotations map; the same holds for the labels.
\<close>

theorem FlattenMetadata_hides_internal_keys:
  assumes "FlattenMetadata h ms meta d pm metaPrefix = Inr out"
  shows "\<exists>m annotations labels configAnnotations configLabels.
           out = [IMap m] \<and>
           map_of m ''annotations'' = Some (IStringMap annotations) \<and>
           map_of m ''labels'' = Some (IStringMap labels) \<and>
           Get d (metaPrefix_head metaPrefix @ ''metadata.0.annotations'') = IMap configAnnotations \<and>
           Get d (metaPrefix_head metaPrefix @ ''metadata.0.labels'') = IMap configLabels \<and>
           \<not> (\<exists>k. k \<in> fst ` set annotations \<and> IsInternalKey h k \<and> k \<notin> fst ` set configAnnotations) \<and>
           \<not> (\<exists>k. k \<in> fst ` set labels \<and> IsInternalKey h k \<and> k \<notin> fst ` set configLabels)"
proof -
  from FlattenMetadata_Inr [OF assms] obtain ca cl ia il m where
    ca: "Get d (metaPrefix_head metaPrefix @ ''metadata.0.annotations'') = IMap ca" and
    cl: "Get d (metaPrefix_head metaPrefix @ ''metadata.0.labels'') = IMap cl" and
    out: "out = [IMap m]" and
    a: "map_of m ''annotations'' =
          Some (IStringMap (removeKeys ms (removeInternalKeys h (Annotations meta) ca) ca ia))" and
    l: "map_of m ''labels'' =
          Some (IStringMap (removeKeys ms (removeInternalKeys h (Labels meta) cl) cl il))"
    by blast
  have "\<not> (\<exists>k. k \<in> fst ` set (removeKeys ms (removeInternalKeys h xs c) c ign) \<and>
               IsInternalKey h k \<and> k \<notin> fst ` set c)" for xs c ign
    by (auto simp: removeKeys_filter removeInternalKeys_filter IsKeyInMap_iff)
  with ca cl out a l show ?thesis by blast
qed

theorem FlattenMetadata_hides_internal_keys_witness:
  "FlattenMetadata plain_Hostname literal_MatchString example_meta example_d example_provider [] =
     Inr [IMap [(''annotations'', IStringMap [(''pv.kubernetes.io/keep'', ''yes''), (''owner'', ''ops'')]),
              (''labels'', IStringMap [(''app.kubernetes.io/name'', ''db''), (''tier'', ''x'')]),
              (''name'', IString ''team-a''), (''resource_version'', IString ''41''),
              (''uid'', IString ''u-1''), (''generation'', IInt 1)]] \<and>
   \<not> (\<exists>k. k \<in> fst ` set [(''pv.kubernetes.io/keep'', ''yes''), (''owner'', ''ops'')] \<and>
          IsInternalKey plain_Hostname k \<and>
          k \<notin> fst ` set [(''pv.kubernetes.io/keep'', IString ''yes''), (''owner'', IString ''ops'')]) \<and>
   \<not> (\<exists>k. k \<in> fst ` set [(''app.kubernetes.io/name'', ''db''), (''tier'', ''x'')] \<and>
          IsInternalKey plain_Hostname k \<and> k \<notin> fst ` set [(''tier'', IString ''x'')])"
  using FlattenMetadata_hides_internal_keys [OF example_run] example_config_read example_run
  by auto

text \<open>
  The ignore list that \<open>FlattenMetadata\<close> works with has every string of the provider's
  list, and the empty string for every nil element.
\<close>

lemma ExpandStringSlice_mem:
  assumes "ExpandStringSlice s = Inr r"
  shows "IString e \<in> set s \<Longrightarrow> e \<in> set r" and "INil \<in> set s \<Longrightarrow> [] \<in> set r"
proof -
  from assms have "\<forall>v \<in> set s. v = INil \<or> (\<exists>x. v = IString x)"
    using ExpandStringSlice_Inr_elems by blast
  from ExpandStringSlice_ok [OF this] assms
  have r: "r = map (\<lambda>v. case v of IString x \<Rightarrow> x | _ \<Rightarrow> []) s" by simp
  show "e \<in> set r" if "IString e \<in> set s"
    unfolding r using that by force
  show "[] \<in> set r" if "INil \<in> set s"
    unfolding r using that by force
qed

lemma ignoreList_mem:
  assumes "ignoreList pm key = Inr ign" and "Get (ConfigData pm) key = ISlice v"
  shows "IString e \<in> set v \<Longrightarrow> e \<in> set ign" and "INil \<in> set v \<Longrightarrow> [] \<in> set ign"
  using assms ExpandStringSlice_mem [of v ign]
  by (simp_all add: ignoreList_def)

text \<open>
  C4. An annotation key that matches at least one expression of the provider's
  \<open>ignore_annotations\<close> list and is not a key of the configured annotations map is
  absent from the annotations map that \<open>FlattenMetadata\<close> returns; the same holds for
  the labels with \<open>ignore_labels\<close>. The lists are the ones the provider's
  configuration holds; a nil element of such a list counts as the empty expression.
\<close>

theorem FlattenMetadata_hides_ignored_keys:
  assumes "FlattenMetadata h ms meta d pm metaPrefix = Inr out"
  shows "\<exists>m annotations labels configAnnotations configLabels.
           out = [IMap m] \<and>
           map_of m ''annotations'' = Some (IStringMap annotations) \<and>
           map_of m ''labels'' = Some (IStringMap labels) \<and>
           Get d (metaPrefix_head metaPrefix @ ''metadata.0.annotations'') = IMap configAnnotations \<and>
           Get d (metaPrefix_head metaPrefix @ ''metadata.0.labels'') = IMap configLabels \<and>
           \<not> (\<exists>k e v. Get (ConfigData pm) ''ignore_annotations'' = ISlice v \<and>
                    (IString e \<in> set v \<or> INil \<in> set v \<and> e = '''') \<and> fst (ms e k) \<and>
                    k \<notin> fst ` set configAnnotations \<and> k \<in> fst ` set annotations) \<and>
           \<not> (\<exists>k e v. Get (ConfigData pm) ''ignore_labels'' = ISlice v \<and>
                    (IString e \<in> set v \<or> INil \<in> set v \<and> e = '''') \<and> fst (ms e k) \<and>
                    k \<notin> fst ` set configLabels \<and> k \<in> fst ` set labels)"
proof -
  from FlattenMetadata_Inr [OF assms] obtain ca cl ia il m where
    ca: "Get d (metaPrefix_head metaPrefix @ ''metadata.0.annotations'') = IMap ca" and
    cl: "Get d (metaPrefix_head metaPrefix @ ''metadata.0.labels'') = IMap cl" and
    ia: "ignoreList pm ''ignore_annotations'' = Inr ia" and
    il: "ignoreList pm ''ignore_labels'' = Inr il" and
    out: "out = [IMap m]" and
    a: "map_of m ''annotations'' =
          Some (IStringMap (removeKeys ms (removeInternalKeys h (Annotations meta) ca) ca ia))" and
    l: "map_of m ''labels'' =
          Some (IStringMap (removeKeys ms (removeInternalKeys h (Labels meta) cl) cl il))"
    by blast
  have hidden: "\<not> (\<exists>k e. e \<in> set ign \<and> fst (ms e k) \<and> k \<notin> fst ` set c \<and>
                 k \<in> fst ` set (removeKeys ms xs c ign))" for xs c ign
    by (force simp: removeKeys_filter IsKeyInMap_iff ignoreKey_iff)
  have raw: "e \<in> set ign"
    if "ignoreList pm key = Inr ign" and "Get (ConfigData pm) key = ISlice v"
      and "IString e \<in> set v \<or> INil \<in> set v \<and> e = ''''" for key ign v e
    using that ignoreList_mem [of pm key ign v] by blast
  have A: "\<not> (\<exists>k e v. Get (ConfigData pm) ''ignore_annotations'' = ISlice v \<and>
                 (IString e \<in> set v \<or> INil \<in> set v \<and> e = '''') \<and> fst (ms e k) \<and>
                 k \<notin> fst ` set ca \<and>
                 k \<in> fst ` set (removeKeys ms (removeInternalKeys h (Annotations meta) ca) ca ia))"
    using hidden [of ia ca "removeInternalKeys h (Annotations meta) ca"] raw [OF ia] by blast
  have L: "\<not> (\<exists>k e v. Get (ConfigData pm) ''ignore_labels'' = ISlice v \<and>
                 (IString e \<in> set v \<or> INil \<in> set v \<and> e = '''') \<and> fst (ms e k) \<and>
                 k \<notin> fst ` set cl \<and>
                 k \<in> fst ` set (removeKeys ms (removeInternalKeys h (Labels meta) cl) cl il))"
    using hidden [of il cl "removeInternalKeys h (Labels meta) cl"] raw [OF il] by blast
  from ca cl out a l A L show ?thesis by blast
qed

text \<open>
  In the concrete run the provider's list is \<open>[audit]\<close>. The annotation \<open>audit/ts\<close>
  of the object matches it and is not configured: it is gone from the result.
\<close>

lemma example_run_flattened:
  "FlattenMetadata plain_Hostname literal_MatchString example_meta example_d example_provider [] =
     Inr [IMap example_flattened]"
  using example_run by (simp add: example_flattened_def)

lemma example_flattened_annotations:
  "map_of example_flattened ''annotations'' =
     Some (IStringMap [(''pv.kubernetes.io/keep'', ''yes''), (''owner'', ''ops'')])"
  by (simp add: example_flattened_def)

theorem FlattenMetadata_hides_ignored_keys_witness:
  "FlattenMetadata plain_Hostname literal_MatchString example_meta example_d example_provider [] =
     Inr [IMap example_flattened] \<and>
   map_of example_flattened ''annotations'' =
     Some (IStringMap [(''pv.kubernetes.io/keep'', ''yes''), (''owner'', ''ops'')]) \<and>
   Get (ConfigData example_provider) ''ignore_annotations'' = ISlice [IString ''audit''] \<and>
   (''audit/ts'', ''9'') \<in> set (Annotations example_meta) \<and>
   fst (literal_MatchString ''audit'' ''audit/ts'') \<and>
   ''audit/ts'' \<notin> fst ` set [(''pv.kubernetes.io/keep'', ''yes''), (''owner'', ''ops'')] \<and>
   \<not> (\<exists>k e v. Get (ConfigData example_provider) ''ignore_annotations'' = ISlice v \<and>
          (IString e \<in> set v \<or> INil \<in> set v \<and> e = '''') \<and> fst (literal_MatchString e k) \<and>
          k \<notin> fst ` set [(''pv.kubernetes.io/keep'', IString ''yes''), (''owner'', IString ''ops'')] \<and>
          k \<in> fst ` set [(''pv.kubernetes.io/keep'', ''yes''), (''owner'', ''ops'')])"
proof -
  have ms: "fst (literal_MatchString ''audit'' ''audit/ts'')"
    by code_simp
  have a: "(''audit/ts'', ''9'') \<in> set (Annotations example_meta)"
    by (simp add: example_meta_def)
  have g: "Get (ConfigData example_provider) ''ignore_annotations'' = ISlice [IString ''audit'']"
    by (simp add: example_provider_def example_config_def)
  have gone: "''audit/ts'' \<notin> fst ` set [(''pv.kubernetes.io/keep'', ''yes''), (''owner'', ''ops'')]"
    by simp
  from FlattenMetadata_hides_ignored_keys [OF example_run_flattened]
  obtain m annotations cA where
    m: "[IMap example_flattened] = [IMap m]" and
    an: "map_of m ''annotations'' = Some (IStringMap annotations)" and
    c: "Get example_d (metaPrefix_head [] @ ''metadata.0.annotations'') = IMap cA" and
    n: "\<not> (\<exists>k e v. Get (ConfigData example_provider) ''ignore_annotations'' = ISlice v \<and>
             (IString e \<in> set v \<or> INil \<in> set v \<and> e = '''') \<and> fst (literal_MatchString e k) \<and>
             k \<notin> fst ` set cA \<and> k \<in> fst ` set annotations)"
    by (elim exE conjE) (rule that)
  from m have "m = example_flattened" by simp
  with an example_flattened_annotations
  have "annotations = [(''pv.kubernetes.io/keep'', ''yes''), (''owner'', ''ops'')]"
    by simp
  moreover from c example_config_read(1)
  have "cA = [(''pv.kubernetes.io/keep'', IString ''yes''), (''owner'', IString ''ops'')]"
    by simp
  ultimately
  have "\<not> (\<exists>k e v. Get (ConfigData example_provider) ''ignore_annotations'' = ISlice v \<and>
          (IString e \<in> set v \<or> INil \<in> set v \<and> e = '''') \<and> fst (literal_MatchString e k) \<and>
          k \<notin> fst ` set [(''pv.kubernetes.io/keep'', IString ''yes''), (''owner'', IString ''ops'')] \<and>
          k \<in> fst ` set [(''pv.kubernetes.io/keep'', ''yes''), (''owner'', ''ops'')])"
    using n by simp
  with ms a g gone example_run_flattened example_flattened_annotations show ?thesis
    by (intro conjI)
qed

text \<open>
  C5. The filters delete only keys the user did not configure: a key of the configured
  map has, after \<open>removeInternalKeys\<close>, after \<open>removeKeys\<close> and after both, the
  value it had before, whether or not it is internal or matches an ignore expression; and
  no entry is added.
\<close>

theorem configured_keys_survive_filtering:
  assumes "IsKeyInMap k d"
  shows "map_of (removeInternalKeys h m d) k = map_of m k \<and>
         map_of (removeKeys ms m d ign) k = map_of m k \<and>
         map_of (removeKeys ms (removeInternalKeys h m d) d ign) k = map_of m k \<and>
         set (removeKeys ms (removeInternalKeys h m d) d ign) \<subseteq> set m"
proof -
  have "set (removeKeys ms (removeInternalKeys h m d) d ign) \<subseteq> set m"
    by (auto simp: removeKeys_filter removeInternalKeys_filter)
  with assms show ?thesis
    by (simp add: removeKeys_filter removeInternalKeys_filter map_of_filter_keep)
qed

text \<open>
  The configured annotation \<open>pv.kubernetes.io/keep\<close> is internal and matches the ignore
  expression \<open>keep\<close>; it stays, with its value.
\<close>

theorem configured_keys_survive_filtering_witness:
  "IsKeyInMap ''pv.kubernetes.io/keep'' [(''pv.kubernetes.io/keep'', IString ''yes'')] \<and>
   IsInternalKey plain_Hostname ''pv.kubernetes.io/keep'' \<and>
   ignoreKey literal_MatchString ''pv.kubernetes.io/keep'' [''keep''] \<and>
   map_of (removeKeys literal_MatchString
             (removeInternalKeys plain_Hostname (Annotations example_meta)
                [(''pv.kubernetes.io/keep'', IString ''yes'')])
             [(''pv.kubernetes.io/keep'', IString ''yes'')] [''keep''])
          ''pv.kubernetes.io/keep'' = Some ''yes''"
proof -
  have c: "IsKeyInMap ''pv.kubernetes.io/keep'' [(''pv.kubernetes.io/keep'', IString ''yes'')]"
    by (simp add: IsKeyInMap_def)
  have i: "IsInternalKey plain_Hostname ''pv.kubernetes.io/keep''"
    by code_simp
  have g: "ignoreKey literal_MatchString ''pv.kubernetes.io/keep'' [''keep'']"
    by code_simp
  have "map_of (Annotations example_meta) ''pv.kubernetes.io/keep'' = Some ''yes''"
    by (simp add: example_meta_def)
  with configured_keys_survive_filtering [OF c, of plain_Hostname "Annotations example_meta"
      literal_MatchString "[''keep'']"] c i g
  show ?thesis by simp
qed

text \<open>
  C2, as stated, promises \<open>True\<close> for every key that contains
  \<open>deprecated.daemonset.template.generation\<close>. A key on the host \<open>app.kubernetes.io\<close>
  contains it and is not internal: the two allowed hosts are decided first.
\<close>

theorem IsInternalKey_substring_counterexample:
  "Contains ''app.kubernetes.io/deprecated.daemonset.template.generation''
     ''deprecated.daemonset.template.generation'' \<and>
   plain_Hostname (''//'' @ ''app.kubernetes.io/deprecated.daemonset.template.generation'') =
     Some ''app.kubernetes.io'' \<and>
   \<not> IsInternalKey plain_Hostname ''app.kubernetes.io/deprecated.daemonset.template.generation''"
  by code_simp

text \<open>
  The same promise fails on a key that \<^verbatim>\<open>url.Parse\<close> rejects, whatever it contains.
\<close>

lemma IsInternalKey_parse_error:
  "url_Hostname (''//'' @ k) = None \<Longrightarrow> \<not> IsInternalKey url_Hostname k"
  by (simp add: IsInternalKey_def)

text \<open>
  C2, amended. \<open>IsInternalKey\<close> is a decision list. It returns \<open>False\<close> when the key
  does not parse, and when the host name is \<open>app.kubernetes.io\<close> or
  \<open>service.beta.kubernetes.io\<close>. For a key that parses with another host name it returns
  \<open>True\<close> when the host name ends with \<open>kubernetes.io\<close> or the key contains
  \<open>deprecated.daemonset.template.generation\<close>, and \<open>False\<close> otherwise.
\<close>

theorem IsInternalKey_decision_list:
  "(\<forall>host. url_Hostname (''//'' @ k) = Some host \<and>
       (host = ''app.kubernetes.io'' \<or> host = ''service.beta.kubernetes.io'') \<longrightarrow>
       \<not> IsInternalKey url_Hostname k) \<and>
   (url_Hostname (''//'' @ k) = None \<longrightarrow> \<not> IsInternalKey url_Hostname k) \<and>
   (\<forall>host. url_Hostname (''//'' @ k) = Some host \<and>
       host \<noteq> ''app.kubernetes.io'' \<and> host \<noteq> ''service.beta.kubernetes.io'' \<and>
       (HasSuffix host ''kubernetes.io'' \<or> Contains k ''deprecated.daemonset.template.generation'') \<longrightarrow>
       IsInternalKey url_Hostname k) \<and>
   (\<forall>host. url_Hostname (''//'' @ k) = Some host \<and>
       \<not> HasSuffix host ''kubernetes.io'' \<and> \<not> Contains k ''deprecated.daemonset.template.generation'' \<longrightarrow>
       \<not> IsInternalKey url_Hostname k)"
  by (auto simp: IsInternalKey_def)

theorem IsInternalKey_decision_list_witness:
  "\<not> IsInternalKey plain_Hostname ''app.kubernetes.io/name'' \<and>
   \<not> IsInternalKey plain_Hostname ''service.beta.kubernetes.io/aws-load-balancer-type'' \<and>
   \<not> IsInternalKey (\<lambda>rawURL. None) ''node.kubernetes.io/zone'' \<and>
   IsInternalKey plain_Hostname ''node.kubernetes.io/zone'' \<and>
   IsInternalKey plain_Hostname ''deprecated.daemonset.template.generation'' \<and>
   \<not> IsInternalKey plain_Hostname ''owner''"
proof -
  have h: "plain_Hostname (''//'' @ ''app.kubernetes.io/name'') = Some ''app.kubernetes.io''"
    "plain_Hostname (''//'' @ ''service.beta.kubernetes.io/aws-load-balancer-type'') =
       Some ''service.beta.kubernetes.io''"
    "plain_Hostname (''//'' @ ''node.kubernetes.io/zone'') = Some ''node.kubernetes.io''"
    "plain_Hostname (''//'' @ ''deprecated.daemonset.template.generation'') =
       Some ''deprecated.daemonset.template.generation''"
    "plain_Hostname (''//'' @ ''owner'') = Some ''owner''"
    by (simp_all add: plain_Hostname_def)
  have s: "HasSuffix ''node.kubernetes.io'' ''kubernetes.io''"
    "\<not> HasSuffix ''owner'' ''kubernetes.io''"
    by (simp_all add: HasSuffix_def suffix_to_prefix)
  have c: "Contains ''deprecated.daemonset.template.generation''
             ''deprecated.daemonset.template.generation''"
    "\<not> Contains ''owner'' ''deprecated.daemonset.template.generation''"
    unfolding Contains_def by code_simp+
  show ?thesis
    using IsInternalKey_decision_list [of plain_Hostname "''app.kubernetes.io/name''"]
      IsInternalKey_decision_list [of plain_Hostname "''service.beta.kubernetes.io/aws-load-balancer-type''"]
      IsInternalKey_decision_list [of "\<lambda>rawURL. None" "''node.kubernetes.io/zone''"]
      IsInternalKey_decision_list [of plain_Hostname "''node.kubernetes.io/zone''"]
      IsInternalKey_decision_list [of plain_Hostname "''deprecated.daemonset.template.generation''"]
      IsInternalKey_decision_list [of plain_Hostname "''owner''"]
      h s c
    by simp
qed

section \<open>Properties of the node selector terms\<close>

lemma flattenNodeSelectorTerm_shape:
  "\<exists>att. flattenNodeSelectorTerm t = [IMap att] \<and>
     (index_map att ''match_expressions'' = INil \<or>
      (\<exists>ms. index_map att ''match_expressions'' = IMapSlice ms)) \<and>
     (index_map att ''match_fields'' = INil \<or>
      (\<exists>ms. index_map att ''match_fields'' = IMapSlice ms))"
  by (simp add: flattenNodeSelectorTerm_def Let_def index_map_def update_conv')

text \<open>
  Expanding one flattened term: neither requirement list has the dynamic type the
  assertions ask for, so both fields of the result are empty.
\<close>

lemma expandNodeSelectorTerm_flatten:
  "expandNodeSelectorTerm Set_List [flattenNodeSelectorTerm t ! 0] =
     Inr \<lparr>MatchExpressions = [], MatchFields = []\<rparr>"
proof -
  from flattenNodeSelectorTerm_shape [of t] obtain att where
    f: "flattenNodeSelectorTerm t = [IMap att]" and
    e: "index_map att ''match_expressions'' = INil \<or>
        (\<exists>ms. index_map att ''match_expressions'' = IMapSlice ms)" and
    m: "index_map att ''match_fields'' = INil \<or>
        (\<exists>ms. index_map att ''match_fields'' = IMapSlice ms)"
    by blast
  from e m show ?thesis
    by (auto simp: f expandNodeSelectorTerm_def bindP_def assert_map_def)
qed

lemma expandNodeSelectorTerms_range_flatten:
  "expandNodeSelectorTerms_range Set_List (flattenNodeSelectorTerms inp) =
     Inr (map (\<lambda>n. \<lparr>MatchExpressions = [], MatchFields = []\<rparr>) inp)"
proof (induction inp)
  case Nil
  then show ?case by (simp add: flattenNodeSelectorTerms_def)
next
  case (Cons t ts)
  then show ?case
    using expandNodeSelectorTerm_flatten [of Set_List t]
    by (simp add: flattenNodeSelectorTerms_def bindP_def)
qed

lemma flattenNodeSelectorTerms_first:
  "inp \<noteq> [] \<Longrightarrow> flattenNodeSelectorTerms inp ! 0 \<noteq> INil"
  using flattenNodeSelectorTerm_shape [of "hd inp"]
  by (cases inp) (auto simp: flattenNodeSelectorTerms_def)

lemma expandNodeSelectorTerms_flatten:
  "expandNodeSelectorTerms Set_List (flattenNodeSelectorTerms inp) =
     Inr (map (\<lambda>n. \<lparr>MatchExpressions = [], MatchFields = []\<rparr>) inp)"
proof (cases "inp = []")
  case True
  then show ?thesis
    by (simp add: expandNodeSelectorTerms_def flattenNodeSelectorTerms_def)
next
  case False
  then have "length (flattenNodeSelectorTerms inp) \<noteq> 0"
    by (simp add: flattenNodeSelectorTerms_def)
  with flattenNodeSelectorTerms_first [OF False] show ?thesis
    by (simp add: expandNodeSelectorTerms_def expandNodeSelectorTerms_range_flatten)
qed

text \<open>
  C3, as stated, fails on a term with one match expression: expanding the flattened list
  gives a term without match expressions.
\<close>

theorem expand_flatten_NodeSelectorTerms_counterexample:
  "expandNodeSelectorTerms items_in_order (flattenNodeSelectorTerms example_terms) =
     Inr [\<lparr>MatchExpressions = [], MatchFields = []\<rparr>] \<and>
   expandNodeSelectorTerms items_in_order (flattenNodeSelectorTerms example_terms) \<noteq>
     Inr example_terms"
  by (simp add: expandNodeSelectorTerms_flatten example_terms_def)

text \<open>
  C3, amended. Expanding the flattened list returns a list of the same length in which
  every term has empty match expressions and empty match fields, whatever \<^verbatim>\<open>Set.List\<close>
  does; so it returns the original list exactly when no term of the original has a match
  expression or a match field.
\<close>

theorem expand_flatten_NodeSelectorTerms:
  "expandNodeSelectorTerms Set_List (flattenNodeSelectorTerms inp) =
     Inr (map (\<lambda>n. \<lparr>MatchExpressions = [], MatchFields = []\<rparr>) inp) \<and>
   (expandNodeSelectorTerms Set_List (flattenNodeSelectorTerms inp) = Inr inp \<longleftrightarrow>
      (\<forall>t. t \<in> set inp \<longrightarrow> MatchExpressions t = [] \<and> MatchFields t = []))"
proof -
  have "map (\<lambda>n. \<lparr>MatchExpressions = [], MatchFields = []\<rparr>) inp = inp \<longleftrightarrow>
          (\<forall>t. t \<in> set inp \<longrightarrow> MatchExpressions t = [] \<and> MatchFields t = [])"
    by (induction inp) auto
  then show ?thesis
    by (simp add: expandNodeSelectorTerms_flatten)
qed

theorem expand_flatten_NodeSelectorTerms_witness:
  "expandNodeSelectorTerms items_in_order
     (flattenNodeSelectorTerms
        [\<lparr>MatchExpressions = [], MatchFields = []\<rparr>, \<lparr>MatchExpressions = [], MatchFields = []\<rparr>]) =
     Inr [\<lparr>MatchExpressions = [], MatchFields = []\<rparr>, \<lparr>MatchExpressions = [], MatchFields = []\<rparr>] \<and>
   length (flattenNodeSelectorTerms example_terms) = 1 \<and>
   expandNodeSelectorTerms items_in_order (flattenNodeSelectorTerms example_terms) =
     Inr [\<lparr>MatchExpressions = [], MatchFields = []\<rparr>]"
  using expand_flatten_NodeSelectorTerms [of items_in_order
          "[\<lparr>MatchExpressions = [], MatchFields = []\<rparr>, \<lparr>MatchExpressions = [], MatchFields = []\<rparr>]"]
        expand_flatten_NodeSelectorTerms [of items_in_order example_terms]
  by (simp add: example_terms_def flattenNodeSelectorTerms_def)

text \<open>
  For comparison: on the representation the schema layer hands out, where the
  requirement lists have the dynamic type \<^verbatim>\<open>[]interface{}\<close>, the expansion does
  recover the requirements.
\<close>

lemma expandNodeSelectorTerms_of_slices:
  "expandNodeSelectorTerms items_in_order
     [IMap [(''match_expressions'',
             ISlice [IMap [(''key'', IString ''zone''), (''values'', ISet [IString ''a'']),
                           (''operator'', IString ''In'')]])]] =
   Inr [\<lparr>MatchExpressions = [\<lparr>Key = ''zone'', Operator = ''In'', Values = [''a'']\<rparr>],
         MatchFields = []\<rparr>]"
  by code_simp

section \<open>Properties of the namespace data source\<close>

text \<open>The four ways in which the read returns.\<close>

lemma dataSourceKubernetesNamespaceRead_cases:
  assumes "dataSourceKubernetesNamespaceRead h ms se d meta = Inr (diags, d', tr)"
  obtains
    (clientset) err where "MainClientset meta = Inl err" "diags = [err]" "d' = d"
      "tr = [MainClientsetCall (Some err)]"
  | (get) conn md metadata err where
      "MainClientset meta = Inr conn" "Get d ''metadata'' = ISlice md"
      "ExpandMetadata md = Inr metadata" "d' = d\<lparr>ResId := Name metadata\<rparr>"
      "Namespaces_Get conn (Name metadata) = Inl err" "diags = [err]"
      "tr = [MainClientsetCall None, SetIdCall (Name metadata),
             NamespacesGetCall (Name metadata) (Some err)]"
  | (set_metadata) conn md metadata ns fm err where
      "MainClientset meta = Inr conn" "Get d ''metadata'' = ISlice md"
      "ExpandMetadata md = Inr metadata" "d' = d\<lparr>ResId := Name metadata\<rparr>"
      "Namespaces_Get conn (Name metadata) = Inr ns"
      "FlattenMetadata h ms (NamespaceObjectMeta ns) d' meta [] = Inr fm"
      "se ''metadata'' (ISlice fm) = Some err" "diags = [err]"
      "tr = [MainClientsetCall None, SetIdCall (Name metadata),
             NamespacesGetCall (Name metadata) None,
             SetCall ''metadata'' (ISlice fm) (Some err)]"
  | (set_spec) conn md metadata ns fm r where
      "MainClientset meta = Inr conn" "Get d ''metadata'' = ISlice md"
      "ExpandMetadata md = Inr metadata" "d' = d\<lparr>ResId := Name metadata\<rparr>"
      "Namespaces_Get conn (Name metadata) = Inr ns"
      "FlattenMetadata h ms (NamespaceObjectMeta ns) d' meta [] = Inr fm"
      "se ''metadata'' (ISlice fm) = None"
      "se ''spec'' (ISlice (flattenNamespaceSpec (Some (Spec ns)))) = r"
      "diags = (case r of None \<Rightarrow> [] | Some err \<Rightarrow> [err])"
      "tr = [MainClientsetCall None, SetIdCall (Name metadata),
             NamespacesGetCall (Name metadata) None,
             SetCall ''metadata'' (ISlice fm) None,
             SetCall ''spec'' (ISlice (flattenNamespaceSpec (Some (Spec ns)))) r]"
  using assms
  unfolding dataSourceKubernetesNamespaceRead_def Let_def bindP_def assert_slice_def diag_FromErr_def
  by (auto split: sum.splits option.splits iface.splits)

text \<open>
  C7, as stated, has the identifier set in every run. With a provider that cannot build
  its clientset the read returns at once: the metadata name is \<open>team-a\<close>, the
  identifier keeps its old value, and neither \<open>SetId\<close> nor \<open>Get\<close> is called.
\<close>

theorem dataSourceKubernetesNamespaceRead_no_clientset_counterexample:
  "dataSourceKubernetesNamespaceRead plain_Hostname literal_MatchString accept_all
     example_d example_provider =
   Inr ([StatusError ''Unauthorized'' ''no credentials''], example_d,
        [MainClientsetCall (Some (StatusError ''Unauthorized'' ''no credentials''))]) \<and>
   Get example_d ''metadata'' = ISlice [IMap [(''name'', IString ''team-a'')]] \<and>
   ResId example_d \<noteq> ''team-a''"
  by (simp add: dataSourceKubernetesNamespaceRead_def example_provider_def example_d_def
        diag_FromErr_def)

text \<open>
  In terms of the trace alone: a returning read has non-empty diagnostics exactly when a
  call of its trace has failed, and the trace of a run with a clientset starts with the
  \<open>SetId\<close> and the \<open>Get\<close>, followed by \<open>Set\<close> calls only.
\<close>

lemma dataSourceKubernetesNamespaceRead_trace:
  assumes "dataSourceKubernetesNamespaceRead h ms se d meta = Inr (diags, d', tr)"
  shows "(diags \<noteq> [] \<longleftrightarrow> list_ex call_failed tr) \<and>
         (\<forall>err. MainClientset meta = Inl err \<longrightarrow> tr = [MainClientsetCall (Some err)] \<and> d' = d) \<and>
         (\<forall>conn. MainClientset meta = Inr conn \<longrightarrow>
            (\<exists>md metadata.
               Get d ''metadata'' = ISlice md \<and> ExpandMetadata md = Inr metadata \<and>
               take 3 tr =
                 [MainClientsetCall None, SetIdCall (Name metadata),
                  NamespacesGetCall (Name metadata)
                    (case Namespaces_Get conn (Name metadata) of
                       Inl err \<Rightarrow> Some err | Inr ns \<Rightarrow> None)] \<and>
               list_all (\<lambda>ev. \<exists>key v r. ev = SetCall key v r) (drop 3 tr) \<and>
               ResId d' = Name metadata))"
  using assms
proof (cases rule: dataSourceKubernetesNamespaceRead_cases)
  case (clientset err)
  then show ?thesis by simp
next
  case (get conn md metadata err)
  then show ?thesis by simp
next
  case (set_metadata conn md metadata ns fm err)
  then show ?thesis by simp
next
  case (set_spec conn md metadata ns fm r)
  then show ?thesis by (cases r) simp_all
qed

lemma FlattenMetadata_ResId:
  "FlattenMetadata h ms meta (d\<lparr>ResId := x\<rparr>) pm metaPrefix = FlattenMetadata h ms meta d pm metaPrefix"
  by (simp add: FlattenMetadata_def)

lemma FlattenMetadata_ConfigData:
  "ConfigData pm = ConfigData pm' \<Longrightarrow>
   FlattenMetadata h ms meta d pm metaPrefix = FlattenMetadata h ms meta d pm' metaPrefix"
  by (simp add: FlattenMetadata_def ignoreList_def)

lemma example_ExpandMetadata:
  "ExpandMetadata [IMap [(''name'', IString ''team-a'')]] =
     Inr \<lparr>Name = ''team-a'', GenerateName = '''', Namespace = '''', ResourceVersion = '''',
          UID = '''', Generation = 0, Annotations = [], Labels = []\<rparr>"
  by (simp add: ExpandMetadata_def index_map_def bindP_def assert_map_def assert_string_def)

lemma example_read_absent:
  "dataSourceKubernetesNamespaceRead plain_Hostname literal_MatchString accept_all
     example_d example_absent =
   Inr ([StatusError ''NotFound'' ''team-a''], example_d\<lparr>ResId := ''team-a''\<rparr>,
        [MainClientsetCall None, SetIdCall ''team-a'',
         NamespacesGetCall ''team-a'' (Some (StatusError ''NotFound'' ''team-a''))])"
proof -
  have "Get example_d ''metadata'' = ISlice [IMap [(''name'', IString ''team-a'')]]"
    by (simp add: example_d_def)
  then show ?thesis
    by (simp add: dataSourceKubernetesNamespaceRead_def example_absent_def bindP_def
          assert_slice_def example_ExpandMetadata diag_FromErr_def)
qed

lemma example_read_present:
  "dataSourceKubernetesNamespaceRead plain_Hostname literal_MatchString reject_spec
     example_d example_present =
   Inr ([Errorf ''spec: cannot be set'' []], example_d\<lparr>ResId := ''team-a''\<rparr>,
        [MainClientsetCall None, SetIdCall ''team-a'', NamespacesGetCall ''team-a'' None,
         SetCall ''metadata''
           (ISlice [IMap [(''annotations'',
                           IStringMap [(''pv.kubernetes.io/keep'', ''yes''), (''owner'', ''ops'')]),
                          (''labels'', IStringMap [(''app.kubernetes.io/name'', ''db''), (''tier'', ''x'')]),
                          (''name'', IString ''team-a''), (''resource_version'', IString ''41''),
                          (''uid'', IString ''u-1''), (''generation'', IInt 1)]]) None,
         SetCall ''spec'' (ISlice [IMap [(''finalizers'', IStringSlice [''kubernetes''])]])
           (Some (Errorf ''spec: cannot be set'' []))])"
proof -
  have g: "Get example_d ''metadata'' = ISlice [IMap [(''name'', IString ''team-a'')]]"
    by (simp add: example_d_def)
  have "ConfigData example_present = ConfigData example_provider"
    by (simp add: example_present_def example_provider_def)
  then have f: "FlattenMetadata plain_Hostname literal_MatchString example_meta
                  (example_d\<lparr>ResId := ''team-a''\<rparr>) example_present [] =
                FlattenMetadata plain_Hostname literal_MatchString example_meta
                  example_d example_provider []"
    using FlattenMetadata_ConfigData [of example_present example_provider]
    by (simp add: FlattenMetadata_ResId)
  have c: "MainClientset example_present =
             Inr \<lparr>Namespaces_Get = (\<lambda>name.
                   Inr \<lparr>NamespaceObjectMeta = example_meta, Spec = \<lparr>Finalizers = [''kubernetes'']\<rparr>\<rparr>)\<rparr>"
    by (simp add: example_present_def)
  have n: "Name \<lparr>Name = ''team-a'', GenerateName = [], Namespace = [], ResourceVersion = [],
          UID = [], Generation = 0, Annotations = [], Labels = []\<rparr> = ''team-a''"
    by simp
  have s1: "reject_spec ''metadata'' v = None" for v
    by (simp add: reject_spec_def)
  have s2: "reject_spec ''spec'' v = Some (Errorf ''spec: cannot be set'' [])" for v
    by (simp add: reject_spec_def)
  have fl: "flattenNamespaceSpec (Some \<lparr>Finalizers = [''kubernetes'']\<rparr>) =
              [IMap [(''finalizers'', IStringSlice [''kubernetes''])]]"
    by (simp add: flattenNamespaceSpec_def)
  show ?thesis
    unfolding dataSourceKubernetesNamespaceRead_def c sum.case Let_def g assert_slice_def
      iface.case bindP_def example_ExpandMetadata n
    by (simp only: Clientset.simps Namespace_v1.simps sum.case f example_run s1 s2 fl
          option.case diag_FromErr_def append.simps)
qed

text \<open>
  C7, amended. The read returns, and returns non-empty diagnostics exactly when one of
  its calls fails. When the main clientset cannot be obtained, it returns that error,
  makes no other call and leaves the identifier as it was. When the clientset is obtained
  and the metadata block expands, the identifier is set to the metadata name before the
  namespace is read: a failing \<open>Get\<close> returns its error with the identifier set; after
  a successful \<open>Get\<close> the diagnostics are non-empty exactly when the schema layer
  refuses the \<open>Set\<close> of \<open>metadata\<close> or of \<open>spec\<close>, and nil otherwise.
\<close>

theorem dataSourceKubernetesNamespaceRead_diagnostics:
  "(MainClientset meta = Inl err \<longrightarrow>
      dataSourceKubernetesNamespaceRead h ms se d meta =
        Inr ([err], d, [MainClientsetCall (Some err)])) \<and>
   (MainClientset meta = Inr conn \<and> Get d ''metadata'' = ISlice md \<and>
    ExpandMetadata md = Inr metadata \<longrightarrow>
      (Namespaces_Get conn (Name metadata) = Inl gerr \<longrightarrow>
         dataSourceKubernetesNamespaceRead h ms se d meta =
           Inr ([gerr], d\<lparr>ResId := Name metadata\<rparr>,
                [MainClientsetCall None, SetIdCall (Name metadata),
                 NamespacesGetCall (Name metadata) (Some gerr)])) \<and>
      (Namespaces_Get conn (Name metadata) = Inr ns \<and>
       FlattenMetadata h ms (NamespaceObjectMeta ns) d meta [] = Inr fm \<longrightarrow>
         (\<exists>diags tr.
            dataSourceKubernetesNamespaceRead h ms se d meta =
              Inr (diags, d\<lparr>ResId := Name metadata\<rparr>, tr) \<and>
            (diags \<noteq> [] \<longleftrightarrow>
               se ''metadata'' (ISlice fm) \<noteq> None \<or>
               se ''spec'' (ISlice (flattenNamespaceSpec (Some (Spec ns)))) \<noteq> None) \<and>
            (diags \<noteq> [] \<longleftrightarrow> list_ex call_failed tr) \<and>
            take 3 tr = [MainClientsetCall None, SetIdCall (Name metadata),
                         NamespacesGetCall (Name metadata) None] \<and>
            drop 3 tr =
              (case se ''metadata'' (ISlice fm) of
                 Some serr \<Rightarrow> [SetCall ''metadata'' (ISlice fm) (Some serr)]
               | None \<Rightarrow>
                   [SetCall ''metadata'' (ISlice fm) None,
                    SetCall ''spec'' (ISlice (flattenNamespaceSpec (Some (Spec ns))))
                      (se ''spec'' (ISlice (flattenNamespaceSpec (Some (Spec ns)))))]))))"
proof (intro conjI impI)
  assume "MainClientset meta = Inl err"
  then show "dataSourceKubernetesNamespaceRead h ms se d meta =
               Inr ([err], d, [MainClientsetCall (Some err)])"
    by (simp add: dataSourceKubernetesNamespaceRead_def diag_FromErr_def)
next
  assume m: "MainClientset meta = Inr conn \<and> Get d ''metadata'' = ISlice md \<and>
             ExpandMetadata md = Inr metadata"
    and g: "Namespaces_Get conn (Name metadata) = Inl gerr"
  then show "dataSourceKubernetesNamespaceRead h ms se d meta =
               Inr ([gerr], d\<lparr>ResId := Name metadata\<rparr>,
                    [MainClientsetCall None, SetIdCall (Name metadata),
                     NamespacesGetCall (Name metadata) (Some gerr)])"
    by (simp add: dataSourceKubernetesNamespaceRead_def diag_FromErr_def bindP_def
          assert_slice_def)
next
  assume m: "MainClientset meta = Inr conn \<and> Get d ''metadata'' = ISlice md \<and>
             ExpandMetadata md = Inr metadata"
    and g: "Namespaces_Get conn (Name metadata) = Inr ns \<and>
            FlattenMetadata h ms (NamespaceObjectMeta ns) d meta [] = Inr fm"
  let ?sp = "ISlice (flattenNamespaceSpec (Some (Spec ns)))"
  let ?pre = "[MainClientsetCall None, SetIdCall (Name metadata),
               NamespacesGetCall (Name metadata) None]"
  from g have f: "FlattenMetadata h ms (NamespaceObjectMeta ns) (d\<lparr>ResId := Name metadata\<rparr>)
                    meta [] = Inr fm"
    by (simp add: FlattenMetadata_ResId)
  have run: "dataSourceKubernetesNamespaceRead h ms se d meta =
          (case se ''metadata'' (ISlice fm) of
             Some serr \<Rightarrow>
               Inr ([serr], d\<lparr>ResId := Name metadata\<rparr>,
                    ?pre @ [SetCall ''metadata'' (ISlice fm) (Some serr)])
           | None \<Rightarrow>
               (case se ''spec'' ?sp of
                  Some serr \<Rightarrow>
                    Inr ([serr], d\<lparr>ResId := Name metadata\<rparr>,
                         ?pre @ [SetCall ''metadata'' (ISlice fm) None,
                                 SetCall ''spec'' ?sp (Some serr)])
                | None \<Rightarrow>
                    Inr ([], d\<lparr>ResId := Name metadata\<rparr>,
                         ?pre @ [SetCall ''metadata'' (ISlice fm) None,
                                 SetCall ''spec'' ?sp None])))"
    using m g f
    by (simp add: dataSourceKubernetesNamespaceRead_def diag_FromErr_def bindP_def
          assert_slice_def Let_def split: option.splits)
  show "\<exists>diags tr.
          dataSourceKubernetesNamespaceRead h ms se d meta =
            Inr (diags, d\<lparr>ResId := Name metadata\<rparr>, tr) \<and>
          (diags \<noteq> [] \<longleftrightarrow> se ''metadata'' (ISlice fm) \<noteq> None \<or> se ''spec'' ?sp \<noteq> None) \<and>
          (diags \<noteq> [] \<longleftrightarrow> list_ex call_failed tr) \<and>
          take 3 tr = ?pre \<and>
          drop 3 tr =
            (case se ''metadata'' (ISlice fm) of
               Some serr \<Rightarrow> [SetCall ''metadata'' (ISlice fm) (Some serr)]
             | None \<Rightarrow>
                 [SetCall ''metadata'' (ISlice fm) None, SetCall ''spec'' ?sp (se ''spec'' ?sp)])"
  proof (cases "se ''metadata'' (ISlice fm)")
    case (Some serr)
    with run show ?thesis by simp
  next
    case None
    with run show ?thesis by (cases "se ''spec'' ?sp") simp_all
  qed
qed

text \<open>
  A cluster without the namespace: the \<open>Get\<close> fails and the identifier is set. A
  cluster with it and a schema layer that refuses \<open>spec\<close>: the diagnostics are not
  empty.
\<close>

theorem dataSourceKubernetesNamespaceRead_diagnostics_witness:
  "dataSourceKubernetesNamespaceRead plain_Hostname literal_MatchString accept_all
     example_d example_absent =
   Inr ([StatusError ''NotFound'' ''team-a''], example_d\<lparr>ResId := ''team-a''\<rparr>,
        [MainClientsetCall None, SetIdCall ''team-a'',
         NamespacesGetCall ''team-a'' (Some (StatusError ''NotFound'' ''team-a''))]) \<and>
   (\<exists>diags tr.
      dataSourceKubernetesNamespaceRead plain_Hostname literal_MatchString reject_spec
        example_d example_present = Inr (diags, example_d\<lparr>ResId := ''team-a''\<rparr>, tr) \<and>
      diags \<noteq> [] \<and> list_ex call_failed tr \<and>
      take 3 tr = [MainClientsetCall None, SetIdCall ''team-a'', NamespacesGetCall ''team-a'' None]) \<and>
   dataSourceKubernetesNamespaceRead plain_Hostname literal_MatchString accept_all
     example_d example_provider =
   Inr ([StatusError ''Unauthorized'' ''no credentials''], example_d,
        [MainClientsetCall (Some (StatusError ''Unauthorized'' ''no credentials''))])"
proof -
  let ?metadata = "\<lparr>Name = ''team-a'', GenerateName = '''', Namespace = '''', ResourceVersion = '''',
          UID = '''', Generation = 0, Annotations = [], Labels = []\<rparr>"
  let ?absent = "\<lparr>Namespaces_Get = (\<lambda>name. Inl (StatusError ''NotFound'' name))\<rparr>"
  let ?ns = "\<lparr>NamespaceObjectMeta = example_meta, Spec = \<lparr>Finalizers = [''kubernetes'']\<rparr>\<rparr>"
  let ?present = "\<lparr>Namespaces_Get = (\<lambda>name. Inr ?ns)\<rparr>"
  have g: "Get example_d ''metadata'' = ISlice [IMap [(''name'', IString ''team-a'')]]"
    by (simp add: example_d_def)
  have n: "Name ?metadata = ''team-a''" by simp
  have a: "MainClientset example_absent = Inr ?absent \<and>
           Get example_d ''metadata'' = ISlice [IMap [(''name'', IString ''team-a'')]] \<and>
           ExpandMetadata [IMap [(''name'', IString ''team-a'')]] = Inr ?metadata"
    using g example_ExpandMetadata by (simp add: example_absent_def)
  have 1: "dataSourceKubernetesNamespaceRead plain_Hostname literal_MatchString accept_all
             example_d example_absent =
           Inr ([StatusError ''NotFound'' ''team-a''], example_d\<lparr>ResId := ''team-a''\<rparr>,
                [MainClientsetCall None, SetIdCall ''team-a'',
                 NamespacesGetCall ''team-a'' (Some (StatusError ''NotFound'' ''team-a''))])"
    using dataSourceKubernetesNamespaceRead_diagnostics
            [where meta = example_absent and conn = ?absent and d = example_d
               and md = "[IMap [(''name'', IString ''team-a'')]]" and metadata = ?metadata
               and gerr = "StatusError ''NotFound'' ''team-a''" and h = plain_Hostname
               and ms = literal_MatchString and se = accept_all, THEN conjunct2, THEN mp, OF a,
             THEN conjunct1]
    by simp
  have p: "MainClientset example_present = Inr ?present \<and>
           Get example_d ''metadata'' = ISlice [IMap [(''name'', IString ''team-a'')]] \<and>
           ExpandMetadata [IMap [(''name'', IString ''team-a'')]] = Inr ?metadata"
    using g example_ExpandMetadata by (simp add: example_present_def)
  have "ConfigData example_present = ConfigData example_provider"
    by (simp add: example_present_def example_provider_def)
  then have f: "Namespaces_Get ?present (Name ?metadata) = Inr ?ns \<and>
                FlattenMetadata plain_Hostname literal_MatchString (NamespaceObjectMeta ?ns)
                  example_d example_present [] = Inr [IMap example_flattened]"
    using FlattenMetadata_ConfigData [of example_present example_provider] example_run_flattened
    by simp
  have 2: "\<exists>diags tr.
      dataSourceKubernetesNamespaceRead plain_Hostname literal_MatchString reject_spec
        example_d example_present = Inr (diags, example_d\<lparr>ResId := ''team-a''\<rparr>, tr) \<and>
      diags \<noteq> [] \<and> list_ex call_failed tr \<and>
      take 3 tr = [MainClientsetCall None, SetIdCall ''team-a'', NamespacesGetCall ''team-a'' None]"
    using dataSourceKubernetesNamespaceRead_diagnostics
            [where meta = example_present and conn = ?present and d = example_d
               and md = "[IMap [(''name'', IString ''team-a'')]]" and metadata = ?metadata
               and ns = ?ns and fm = "[IMap example_flattened]" and h = plain_Hostname
               and ms = literal_MatchString and se = reject_spec, THEN conjunct2, THEN mp, OF p,
             THEN conjunct2, THEN mp, OF f]
    by (simp only: n) (auto simp: reject_spec_def)
  have 3: "dataSourceKubernetesNamespaceRead plain_Hostname literal_MatchString accept_all
             example_d example_provider =
           Inr ([StatusError ''Unauthorized'' ''no credentials''], example_d,
                [MainClientsetCall (Some (StatusError ''Unauthorized'' ''no credentials''))])"
    using dataSourceKubernetesNamespaceRead_diagnostics
            [where meta = example_provider and err = "StatusError ''Unauthorized'' ''no credentials''"
               and h = plain_Hostname and ms = literal_MatchString and se = accept_all
               and d = example_d, THEN conjunct1]
    by (simp add: example_provider_def)
  from 1 2 3 show ?thesis by (intro conjI)
qed

section \<open>Properties of the wait for the default service account\<close>

lemma RetryContext_loop_success:
  assumes "\<forall>j<n. \<exists>r. f (i + j) = Some r \<and> Retryable r"
    and "n < timeout" and "f (i + n) = None"
  shows "RetryContext_loop timeout f i resultErr = (None, Suc (i + n))"
  using assms
proof (induction n arbitrary: timeout i resultErr)
  case 0
  then obtain t where "timeout = Suc t" by (cases timeout) auto
  with 0 show ?case by simp
next
  case (Suc n)
  then obtain t where t: "timeout = Suc t" "n < t" by (cases timeout) auto
  from Suc.prems(1) obtain r where r: "f i = Some r" "Retryable r"
    by (metis add.right_neutral zero_less_Suc)
  have A: "\<forall>j<n. \<exists>r. f (Suc i + j) = Some r \<and> Retryable r"
    using Suc.prems(1) by (metis Suc_less_eq add_Suc_shift)
  have B: "f (Suc i + n) = None"
    using Suc.prems(3) by simp
  have "RetryContext_loop t f (Suc i) (Some (Err r)) = (None, Suc (Suc i + n))"
    by (rule Suc.IH [OF A t(2) B])
  with t r show ?case by simp
qed

lemma RetryContext_loop_failure:
  assumes "\<forall>j<n. \<exists>r. f (i + j) = Some r \<and> Retryable r"
    and "n < timeout" and "f (i + n) = Some rerr" and "\<not> Retryable rerr"
  shows "RetryContext_loop timeout f i resultErr = (Some (Err rerr), Suc (i + n))"
  using assms
proof (induction n arbitrary: timeout i resultErr)
  case 0
  then obtain t where "timeout = Suc t" by (cases timeout) auto
  with 0 show ?case by simp
next
  case (Suc n)
  then obtain t where t: "timeout = Suc t" "n < t" by (cases timeout) auto
  from Suc.prems(1) obtain r where r: "f i = Some r" "Retryable r"
    by (metis add.right_neutral zero_less_Suc)
  have A: "\<forall>j<n. \<exists>r. f (Suc i + j) = Some r \<and> Retryable r"
    using Suc.prems(1) by (metis Suc_less_eq add_Suc_shift)
  have B: "f (Suc i + n) = Some rerr"
    using Suc.prems(3) by simp
  have "RetryContext_loop t f (Suc i) (Some (Err r)) = (Some (Err rerr), Suc (Suc i + n))"
    by (rule Suc.IH [OF A t(2) B Suc.prems(4)])
  with t r show ?case by simp
qed

text \<open>While every answer is retryable, the loop runs into its timeout with the last error.\<close>

lemma RetryContext_loop_timeout:
  assumes "\<forall>j<timeout. \<exists>r. f (i + j) = Some r \<and> Retryable r"
  shows "\<exists>err. RetryContext_loop timeout f i resultErr = (Some err, i + timeout)"
  using assms
proof (induction timeout arbitrary: i resultErr)
  case 0
  then show ?case by (cases resultErr) auto
next
  case (Suc t)
  from Suc.prems obtain r where r: "f i = Some r" "Retryable r"
    by (metis add.right_neutral zero_less_Suc)
  have "\<forall>j<t. \<exists>r. f (Suc i + j) = Some r \<and> Retryable r"
    using Suc.prems by (metis Suc_less_eq add_Suc_shift)
  from Suc.IH [OF this, of "Some (Err r)"] r show ?case by simp
qed

lemma retryFunc_NotFound:
  "IsNotFound err \<Longrightarrow>
   \<exists>r. defaultServiceAccount_retryFunc IsNotFound (Inl err) = Some r \<and> Retryable r"
  by (simp add: defaultServiceAccount_retryFunc_def RetryableError_def)

text \<open>
  C6. Whatever errors \<^verbatim>\<open>errors.IsNotFound\<close> holds of: the function passed to the retry
  loop classifies a failed \<open>Get\<close> as retryable if and only if \<open>IsNotFound\<close> holds of
  the error, and returns nil for a successful \<open>Get\<close>. After any number of
  \<open>NotFound\<close> answers within the timeout, an error of another kind ends the loop with
  that error, and a success ends it without error; no further \<open>Get\<close> is made.
\<close>

theorem defaultServiceAccount_retry_classification:
  fixes sa :: 'sa and serviceAccounts_Get :: "nat \<Rightarrow> error + 'sa"
  shows
  "defaultServiceAccount_retryFunc IsNotFound (Inl err :: error + 'sa) =
     Some \<lparr>Err = err, Retryable = IsNotFound err\<rparr> \<and>
   defaultServiceAccount_retryFunc IsNotFound (Inr sa) = None \<and>
   (n < timeout \<and> (\<forall>j<n. \<exists>e. serviceAccounts_Get j = Inl e \<and> IsNotFound e) \<longrightarrow>
      (\<forall>e. serviceAccounts_Get n = Inl e \<and> \<not> IsNotFound e \<longrightarrow>
         resourceKubernetesDefaultServiceAccountCreate_wait IsNotFound timeout serviceAccounts_Get =
           (Some [e], Suc n)) \<and>
      (\<forall>found. serviceAccounts_Get n = Inr found \<longrightarrow>
         resourceKubernetesDefaultServiceAccountCreate_wait IsNotFound timeout serviceAccounts_Get =
           (None, Suc n)))"
proof (intro conjI impI allI)
  show "defaultServiceAccount_retryFunc IsNotFound (Inl err :: error + 'sa) =
          Some \<lparr>Err = err, Retryable = IsNotFound err\<rparr>"
    by (simp add: defaultServiceAccount_retryFunc_def RetryableError_def NonRetryableError_def)
  show "defaultServiceAccount_retryFunc IsNotFound (Inr sa) = None"
    by (simp add: defaultServiceAccount_retryFunc_def)
next
  fix e
  assume a: "n < timeout \<and> (\<forall>j<n. \<exists>e. serviceAccounts_Get j = Inl e \<and> IsNotFound e)"
    and e: "serviceAccounts_Get n = Inl e \<and> \<not> IsNotFound e"
  let ?f = "\<lambda>i. defaultServiceAccount_retryFunc IsNotFound (serviceAccounts_Get i)"
  from a have "\<forall>j<n. \<exists>r. ?f (0 + j) = Some r \<and> Retryable r"
    using retryFunc_NotFound [of IsNotFound] by fastforce
  moreover from a have "n < timeout" by simp
  moreover from e have "?f (0 + n) = Some \<lparr>Err = e, Retryable = False\<rparr>"
    by (simp add: defaultServiceAccount_retryFunc_def NonRetryableError_def)
  moreover have "\<not> Retryable \<lparr>Err = e, Retryable = False\<rparr>" by simp
  ultimately have "RetryContext_loop timeout ?f 0 None =
                     (Some (Err \<lparr>Err = e, Retryable = False\<rparr>), Suc (0 + n))"
    by (rule RetryContext_loop_failure)
  then show "resourceKubernetesDefaultServiceAccountCreate_wait IsNotFound timeout
               serviceAccounts_Get = (Some [e], Suc n)"
    by (simp add: resourceKubernetesDefaultServiceAccountCreate_wait_def RetryContext_def
          diag_FromErr_def)
next
  fix found
  assume a: "n < timeout \<and> (\<forall>j<n. \<exists>e. serviceAccounts_Get j = Inl e \<and> IsNotFound e)"
    and s: "serviceAccounts_Get n = Inr found"
  let ?f = "\<lambda>i. defaultServiceAccount_retryFunc IsNotFound (serviceAccounts_Get i)"
  from a have "\<forall>j<n. \<exists>r. ?f (0 + j) = Some r \<and> Retryable r"
    using retryFunc_NotFound [of IsNotFound] by fastforce
  moreover from a have "n < timeout" by simp
  moreover from s have "?f (0 + n) = None"
    by (simp add: defaultServiceAccount_retryFunc_def)
  ultimately have "RetryContext_loop timeout ?f 0 None = (None, Suc (0 + n))"
    by (rule RetryContext_loop_success)
  then show "resourceKubernetesDefaultServiceAccountCreate_wait IsNotFound timeout
               serviceAccounts_Get = (None, Suc n)"
    by (simp add: resourceKubernetesDefaultServiceAccountCreate_wait_def RetryContext_def)
qed

text \<open>
  Two \<open>NotFound\<close> answers and then the account: three calls, no diagnostics. One
  \<open>NotFound\<close> answer and then \<open>Forbidden\<close>: two calls, and the \<open>Forbidden\<close> error.
\<close>

theorem defaultServiceAccount_retry_classification_witness:
  "resourceKubernetesDefaultServiceAccountCreate_wait example_IsNotFound 5 example_answers =
     (None, 3) \<and>
   resourceKubernetesDefaultServiceAccountCreate_wait example_IsNotFound 5 example_forbidden =
     (Some [StatusError ''Forbidden'' ''default''], 2) \<and>
   defaultServiceAccount_retryFunc example_IsNotFound (example_forbidden 0) =
     Some \<lparr>Err = StatusError ''NotFound'' ''default'', Retryable = True\<rparr> \<and>
   defaultServiceAccount_retryFunc example_IsNotFound (example_forbidden 1) =
     Some \<lparr>Err = StatusError ''Forbidden'' ''default'', Retryable = False\<rparr>"
proof -
  have a: "(2::nat) < 5 \<and> (\<forall>j<2. \<exists>e. example_answers j = Inl e \<and> example_IsNotFound e)"
    by (simp add: example_answers_def)
  have b: "(1::nat) < 5 \<and> (\<forall>j<1. \<exists>e. example_forbidden j = Inl e \<and> example_IsNotFound e)"
    by (simp add: example_forbidden_def)
  have "example_answers 2 = Inr ''default''"
    by (simp add: example_answers_def)
  with a defaultServiceAccount_retry_classification
         [of example_IsNotFound "StatusError ''NotFound'' ''default''" "''default''" 2 5
            example_answers]
  have "resourceKubernetesDefaultServiceAccountCreate_wait example_IsNotFound 5 example_answers =
          (None, Suc 2)"
    by blast
  then have 1: "resourceKubernetesDefaultServiceAccountCreate_wait example_IsNotFound 5
                  example_answers = (None, 3)"
    by simp
  have "example_forbidden 1 = Inl (StatusError ''Forbidden'' ''default'') \<and>
        \<not> example_IsNotFound (StatusError ''Forbidden'' ''default'')"
    by (simp add: example_forbidden_def)
  with b defaultServiceAccount_retry_classification
         [of example_IsNotFound "StatusError ''Forbidden'' ''default''" "''default''" 1 5
            example_forbidden]
  have "resourceKubernetesDefaultServiceAccountCreate_wait example_IsNotFound 5 example_forbidden =
          (Some [StatusError ''Forbidden'' ''default''], Suc 1)"
    by blast
  then have 2: "resourceKubernetesDefaultServiceAccountCreate_wait example_IsNotFound 5
                  example_forbidden = (Some [StatusError ''Forbidden'' ''default''], 2)"
    by simp
  have 3: "defaultServiceAccount_retryFunc example_IsNotFound (example_forbidden 0) =
             Some \<lparr>Err = StatusError ''NotFound'' ''default'', Retryable = True\<rparr>"
    using defaultServiceAccount_retry_classification
            [of example_IsNotFound "StatusError ''NotFound'' ''default''" "''default''" 0 0
               example_forbidden]
    by (simp add: example_forbidden_def)
  have 4: "defaultServiceAccount_retryFunc example_IsNotFound (example_forbidden 1) =
             Some \<lparr>Err = StatusError ''Forbidden'' ''default'', Retryable = False\<rparr>"
    using defaultServiceAccount_retry_classification
            [of example_IsNotFound "StatusError ''Forbidden'' ''default''" "''default''" 0 0
               example_forbidden]
    by (simp add: example_forbidden_def)
  from 1 2 3 4 show ?thesis by simp
qed

section \<open>Properties of the limit ranges\<close>





subsection \<open>The blocks one by one\<close>








subsection \<open>One entry\<close>

lemma bindE_simps [simp]:
  "bindE (Inl p) f = Inl p"
  "bindE (Inr (Inl err)) f = Inr (Inl err)"
  "bindE (Inr (Inr x)) f = f x"
  by (simp_all add: bindE_def)








subsection \<open>The loop over the entries\<close>






text \<open>
  Two entries, the second a Pod entry with a \<open>default_request\<close>: an error that names
  the index 1 for a new object; otherwise both entries expand, and the Pod item has its
  \<open>default\<close> and \<open>min\<close> but no \<open>DefaultRequest\<close>.
\<close>

lemma example_limits_new:
  "ExpandLimitRangeSpec FromInt example_ParseQuantity example_limits True =
     Inr (\<lparr>Limits = []\<rparr>,
          Some (Errorf ''limit.%d.default_request cannot be set for Pod limit'' [IInt 1]))"
  by code_simp



end
